theory Spec2Isabelle
  imports Complex_Main "HOL-Library.Sublist"
begin

section \<open>JavaScript strings and numbers\<close>

text \<open>
  A JavaScript string is modelled by the bytes of its UTF-8 encoding, as a
  \<^typ>\<open>string\<close>: an ASCII character is one byte below 128, any other character a
  sequence of bytes from 128 on.

  \<open>String.prototype.toLowerCase\<close> maps the ASCII capitals to the small letters. Two
  characters outside ASCII have a lower case that contains an ASCII letter: the Kelvin
  sign U+212A becomes \<open>k\<close>, and the capital I with dot above U+0130 becomes \<open>i\<close>
  followed by the combining dot U+0307. Every other character outside ASCII is kept as
  it is here; its lower case is again outside ASCII, and the service only ever searches
  the lower-cased text for ASCII keywords and never returns it.
\<close>

definition toLowerChar :: "char \<Rightarrow> char" where
  "toLowerChar c =
     (let n = (of_char c :: nat) in if 65 \<le> n \<and> n \<le> 90 then char_of (n + 32) else c)"

definition kelvin_sign :: string where
  "kelvin_sign = [CHR 0xE2, CHR 0x84, CHR 0xAA]"

definition capital_i_with_dot :: string where
  "capital_i_with_dot = [CHR 0xC4, CHR 0xB0]"

definition small_i_with_dot :: string where
  "small_i_with_dot = [CHR ''i'', CHR 0xCC, CHR 0x87]"

fun toLowerCase :: "string \<Rightarrow> string" where
  "toLowerCase [] = []"
| "toLowerCase (c # cs) =
     (if prefix kelvin_sign (c # cs) then CHR ''k'' # toLowerCase (drop 2 cs)
      else if prefix capital_i_with_dot (c # cs)
        then small_i_with_dot @ toLowerCase (drop 1 cs)
      else toLowerChar c # toLowerCase cs)"

declare toLowerCase.simps [simp del]

text \<open>\<open>text.includes(keyword)\<close>: the keyword occurs as a contiguous substring.\<close>

fun str_includes :: "string \<Rightarrow> string \<Rightarrow> bool" where
  "str_includes [] k = (k = [])"
| "str_includes (c # cs) k = (prefix k (c # cs) \<or> str_includes cs k)"

text \<open>The decimal numeral a template literal prints for a non-negative integer.\<close>

fun digits :: "nat \<Rightarrow> string" where
  "digits n =
     (if n < 10 then [char_of (48 + n)] else digits (n div 10) @ [char_of (48 + n mod 10)])"

declare digits.simps [simp del]

text \<open>
  Numbers are exact rationals. \<open>x.toFixed(2)\<close> followed by \<open>parseFloat\<close> is the multiple
  of 0.01 nearest to \<open>x\<close>, the larger one at a tie. Every score the service computes is a
  sum of a few two-decimal constants, so its double is within a rounding error of the
  exact value and far from a tie: the two-decimal result is the same in both arithmetics.
\<close>

definition toFixed2 :: "rat \<Rightarrow> rat" where
  "toFixed2 x = of_int \<lfloor>x * 100 + 1 / 2\<rfloor> / 100"

section \<open>Fallback rule-based prioritization (\<open>aiService.js\<close>)\<close>

datatype priority = URGENT | HIGH | MEDIUM | LOW

record requestData =
  title :: string
  description :: string
  category :: string

record classification =
  priority :: priority
  score :: rat
  reason :: string
  suggestedCategory :: string

definition emergencyKeywords :: "string list" where
  "emergencyKeywords =
     [''emergency'', ''urgent'', ''critical'', ''accident'', ''fire'',
      ''flood'', ''earthquake'', ''blood'', ''heart attack'', ''stroke'',
      ''pregnant'', ''child'', ''baby'', ''missing'', ''danger'',
      ''dying'', ''emergency room'', ''hospital'', ''ambulance'']"

definition highPriorityKeywords :: "string list" where
  "highPriorityKeywords =
     [''medicine'', ''medication'', ''sick'', ''fever'', ''cough'',
      ''hungry'', ''starving'', ''food'', ''water'', ''shelter'',
      ''homeless'', ''evicted'', ''no electricity'', ''no water'']"

definition request_text :: "requestData \<Rightarrow> string" where
  "request_text rd = toLowerCase (title rd @ '' '' @ description rd)"

definition emergencyMatches :: "requestData \<Rightarrow> nat" where
  "emergencyMatches rd = length (filter (str_includes (request_text rd)) emergencyKeywords)"

definition highPriorityMatches :: "requestData \<Rightarrow> nat" where
  "highPriorityMatches rd =
     length (filter (str_includes (request_text rd)) highPriorityKeywords)"

definition fallbackPrioritization :: "requestData \<Rightarrow> classification" where
  "fallbackPrioritization rd =
     (let em = emergencyMatches rd;
          hp = highPriorityMatches rd;
          cat = category rd;
          (p, s) =
            (if em > 0 then (URGENT, 9 / 10 + of_nat em * (2 / 100))
             else if hp > 0 \<or> cat = ''MEDICAL'' \<or> cat = ''EMERGENCY''
               then (HIGH, 7 / 10 + of_nat hp * (5 / 100))
             else if cat = ''FOOD'' then (HIGH, 75 / 100)
             else if cat = ''EDUCATION'' \<or> cat = ''LEGAL'' then (MEDIUM, 6 / 10)
             else (LOW, 4 / 10));
          r =
            (if em > 0 then ''Contains '' @ digits em @ '' emergency keyword(s)''
             else if hp > 0 then ''Contains '' @ digits hp @ '' high-priority keyword(s)''
             else ''Category-based priority: '' @ cat)
      in \<lparr>priority = p, score = toFixed2 (min s (99 / 100)), reason = r,
          suggestedCategory = cat\<rparr>)"

text \<open>The ordering of the priorities that the data model names: URGENT, HIGH, MEDIUM, LOW.\<close>

fun priority_rank :: "priority \<Rightarrow> nat" where
  "priority_rank URGENT = 3"
| "priority_rank HIGH = 2"
| "priority_rank MEDIUM = 1"
| "priority_rank LOW = 0"

section \<open>Fallback chatbot response (\<open>aiService.js\<close>)\<close>

record chat_config =
  cfg_response :: string
  cfg_confidence :: rat
  cfg_actions :: "string list"

record chat_reply =
  response :: string
  confidence :: rat
  sources :: "string list"
  suggested_actions :: "string list"
  timestamp :: string

text \<open>The object literal \<open>responses\<close>: \<open>Object.entries\<close> lists its keys in the order
  they are written, since none of them is an integer index.\<close>

definition responses :: "(string \<times> chat_config) list" where
  "responses =
    [(''hello|hi|hey|kamusta'',
      \<lparr>cfg_response = ''Hello! How can I help you with BarangayLink today?'',
       cfg_confidence = 9 / 10,
       cfg_actions = [''Submit Request'', ''Browse Events'', ''Make Donation'']\<rparr>),
     (''request|help|assistance|tulong'',
      \<lparr>cfg_response = ''You can submit a help request in the Services section. What type of assistance do you need?'',
       cfg_confidence = 8 / 10,
       cfg_actions = [''Medical Help'', ''Food Support'', ''Emergency'']\<rparr>),
     (''medical|doctor|hospital|sakit|gamot'',
      \<lparr>cfg_response = ''For medical emergencies, please call 911 immediately. For non-emergencies, you can submit a medical request through our system.'',
       cfg_confidence = 85 / 100,
       cfg_actions = [''Submit Medical Request'', ''Find Health Center'', ''Emergency Contacts'']\<rparr>),
     (''food|hunger|meal|gutom|pagkain'',
      \<lparr>cfg_response = ''We have a food assistance program. You can submit a food request or visit our community pantry during operating hours.'',
       cfg_confidence = 8 / 10,
       cfg_actions = [''Submit Food Request'', ''View Pantry Locations'', ''Donate Food'']\<rparr>),
     (''event|activity|program|meeting|pulong'',
      \<lparr>cfg_response = ''Check the Events section for upcoming community activities. You can also register as a volunteer for events!'',
       cfg_confidence = 8 / 10,
       cfg_actions = [''Browse Events'', ''Volunteer Registration'', ''Create Event'']\<rparr>),
     (''donate|donation|contribute|bigay|abuloy'',
      \<lparr>cfg_response = ''Thank you for wanting to help! Visit the Donations section to contribute. All donations are tracked transparently.'',
       cfg_confidence = 9 / 10,
       cfg_actions = [''Make Donation'', ''View Campaigns'', ''Donation History'']\<rparr>),
     (''volunteer|volunteering|help others|tumulong|boluntaryo'',
      \<lparr>cfg_response = ''That'' @ [CHR 0x27] @ ''s wonderful! Register as a volunteer in your profile settings, then browse available opportunities.'',
       cfg_confidence = 85 / 100,
       cfg_actions = [''Volunteer Registration'', ''View Opportunities'', ''My Assignments'']\<rparr>),
     (''clearance|certificate|document|permit|cedula'',
      \<lparr>cfg_response = ''For barangay clearances, please visit the office with: 1) Valid ID, 2) Proof of residency, 3) Purpose of clearance.'',
       cfg_confidence = 8 / 10,
       cfg_actions = [''Requirements List'', ''Office Hours'', ''Online Request'']\<rparr>),
     (''complaint|problem|issue|reklamo|problema'',
      \<lparr>cfg_response = ''You can submit a formal complaint through the Services section. Please provide detailed information and evidence if available.'',
       cfg_confidence = 8 / 10,
       cfg_actions = [''Submit Complaint'', ''View Process'', ''Status Tracking'']\<rparr>),
     (''thank|thanks|salamat|maraming salamat'',
      \<lparr>cfg_response = ''You'' @ [CHR 0x27] @ ''re welcome! Is there anything else I can help you with?'',
       cfg_confidence = 95 / 100,
       cfg_actions = []\<rparr>),
     (''contact|phone|number|tawag|telepono'',
      \<lparr>cfg_response = ''You can contact the barangay office at (02) 123-4567 during office hours (Monday-Friday, 8AM-5PM).'',
       cfg_confidence = 7 / 10,
       cfg_actions = [''Emergency Contacts'', ''Office Location'', ''Email Support'']\<rparr>)]"

text \<open>\<open>pattern.split('|')\<close>.\<close>

fun split_bar :: "string \<Rightarrow> string list" where
  "split_bar [] = [[]]"
| "split_bar (c # cs) =
     (if c = CHR ''|'' then [] # split_bar cs
      else (case split_bar cs of [] \<Rightarrow> [[c]] | w # ws \<Rightarrow> (c # w) # ws))"

text \<open>\<open>patterns.some(p => lowerQuery.includes(p))\<close> for one entry of \<open>responses\<close>.\<close>

definition pattern_matches :: "string \<Rightarrow> string \<Rightarrow> bool" where
  "pattern_matches lowerQuery pattern = list_ex (str_includes lowerQuery) (split_bar pattern)"

text \<open>The \<open>for ... of\<close> loop: the first entry that matches leaves the loop with its
  configuration; \<open>None\<close> is the loop running to its end.\<close>

fun find_response :: "(string \<times> chat_config) list \<Rightarrow> string \<Rightarrow> chat_config option" where
  "find_response [] lowerQuery = None"
| "find_response ((pattern, config) # rest) lowerQuery =
     (if pattern_matches lowerQuery pattern then Some config
      else find_response rest lowerQuery)"

definition matched_reply :: "string \<Rightarrow> chat_config \<Rightarrow> chat_reply" where
  "matched_reply now config =
     \<lparr>response = cfg_response config, confidence = cfg_confidence config,
      sources = [''BarangayLink FAQ Database''], suggested_actions = cfg_actions config,
      timestamp = now\<rparr>"

definition default_reply :: "string \<Rightarrow> chat_reply" where
  "default_reply now =
     \<lparr>response = ''I'' @ [CHR 0x27] @ ''m not sure about that. Please contact the barangay office directly for specific inquiries or check our FAQ section.'',
      confidence = 3 / 10,
      sources = [],
      suggested_actions = [''Contact Support'', ''Browse FAQ'', ''Submit General Inquiry''],
      timestamp = now\<rparr>"

text \<open>\<open>now\<close> is the value of \<open>new Date().toISOString()\<close> at the call.\<close>

definition fallbackChatbotResponse :: "string \<Rightarrow> string \<Rightarrow> chat_reply" where
  "fallbackChatbotResponse now query =
     (let lowerQuery = toLowerCase query
      in case find_response responses lowerQuery of
           Some config \<Rightarrow> matched_reply now config
         | None \<Rightarrow> default_reply now)"

section \<open>Fallback resource prediction (\<open>aiService.js\<close>)\<close>

text \<open>
  \<open>affectedPopulation\<close> is a JavaScript number, here an exact rational; \<open>Math.ceil\<close> is
  \<^const>\<open>ceiling\<close>. On the integers below \<open>2^53\<close> the products and quotients of the
  tables round to the same integer in double arithmetic.
\<close>

definition predictions :: "rat \<Rightarrow> (string \<times> (string \<times> int) list) list" where
  "predictions affectedPopulation =
    [(''FLOOD'',
      [(''water_liters'', \<lceil>affectedPopulation * 5\<rceil>),
       (''food_rations'', \<lceil>affectedPopulation * 3\<rceil>),
       (''blankets'', \<lceil>affectedPopulation\<rceil>),
       (''first_aid_kits'', \<lceil>affectedPopulation / 50\<rceil>),
       (''emergency_kits'', \<lceil>affectedPopulation / 10\<rceil>),
       (''volunteers_needed'', \<lceil>affectedPopulation / 100\<rceil>),
       (''boats'', max 1 \<lceil>affectedPopulation / 500\<rceil>),
       (''life_jackets'', \<lceil>affectedPopulation / 2\<rceil>)]),
     (''EARTHQUAKE'',
      [(''tents'', \<lceil>affectedPopulation / 5\<rceil>),
       (''first_aid_kits'', \<lceil>affectedPopulation / 20\<rceil>),
       (''rescue_teams'', \<lceil>affectedPopulation / 500\<rceil>),
       (''heavy_equipment'', \<lceil>affectedPopulation / 1000\<rceil>),
       (''volunteers_needed'', \<lceil>affectedPopulation / 50\<rceil>),
       (''blankets'', \<lceil>affectedPopulation * 2\<rceil>),
       (''food_rations'', \<lceil>affectedPopulation * 2\<rceil>),
       (''water_liters'', \<lceil>affectedPopulation * 3\<rceil>)]),
     (''FIRE'',
      [(''temporary_shelter'', \<lceil>affectedPopulation / 10\<rceil>),
       (''clothing'', \<lceil>affectedPopulation\<rceil>),
       (''food_rations'', \<lceil>affectedPopulation * 2\<rceil>),
       (''counseling_teams'', \<lceil>affectedPopulation / 100\<rceil>),
       (''volunteers_needed'', \<lceil>affectedPopulation / 75\<rceil>),
       (''first_aid_kits'', \<lceil>affectedPopulation / 30\<rceil>),
       (''blankets'', \<lceil>affectedPopulation\<rceil>)]),
     (''TYPHOON'',
      [(''water_liters'', \<lceil>affectedPopulation * 4\<rceil>),
       (''canned_goods'', \<lceil>affectedPopulation * 7\<rceil>),
       (''emergency_kits'', \<lceil>affectedPopulation\<rceil>),
       (''generators'', \<lceil>affectedPopulation / 200\<rceil>),
       (''volunteers_needed'', \<lceil>affectedPopulation / 80\<rceil>),
       (''first_aid_kits'', \<lceil>affectedPopulation / 40\<rceil>),
       (''blankets'', \<lceil>affectedPopulation * (3 / 2)\<rceil>)]),
     (''MEDICAL'',
      [(''first_aid_kits'', \<lceil>affectedPopulation / 10\<rceil>),
       (''masks'', \<lceil>affectedPopulation * 10\<rceil>),
       (''sanitizer_liters'', \<lceil>affectedPopulation / 5\<rceil>),
       (''volunteers_needed'', \<lceil>affectedPopulation / 50\<rceil>),
       (''ambulance_units'', max 1 \<lceil>affectedPopulation / 1000\<rceil>)])]"

definition defaultPrediction :: "rat \<Rightarrow> (string \<times> int) list" where
  "defaultPrediction affectedPopulation =
     [(''water_liters'', \<lceil>affectedPopulation * 3\<rceil>),
      (''food_rations'', \<lceil>affectedPopulation * 2\<rceil>),
      (''blankets'', \<lceil>affectedPopulation\<rceil>),
      (''first_aid_kits'', \<lceil>affectedPopulation / 30\<rceil>),
      (''volunteers_needed'', \<lceil>affectedPopulation / 100\<rceil>),
      (''emergency_kits'', \<lceil>affectedPopulation / 20\<rceil>)]"

text \<open>
  \<open>predictions\<close> is an ordinary object literal, so \<open>predictions[disasterType]\<close> reads
  through its prototype as well: for the name of a member of \<open>Object.prototype\<close> it is
  that member, a function or an object, and so truthy.
\<close>

definition object_prototype_members :: "string list" where
  "object_prototype_members =
     [''constructor'', ''__defineGetter__'', ''__defineSetter__'', ''hasOwnProperty'',
      ''__lookupGetter__'', ''__lookupSetter__'', ''isPrototypeOf'',
      ''propertyIsEnumerable'', ''toString'', ''valueOf'', ''__proto__'',
      ''toLocaleString'']"

datatype prediction = Table "(string \<times> int) list" | Inherited string

record resource_prediction =
  status :: string
  disaster_type :: string
  affected_population :: rat
  prediction :: prediction
  generated_at :: string
  fallback_note :: string

definition fallbackResourcePrediction :: "string \<Rightarrow> string \<Rightarrow> rat \<Rightarrow> resource_prediction" where
  "fallbackResourcePrediction now disasterType affectedPopulation =
     \<lparr>status = ''success'',
      disaster_type = disasterType,
      affected_population = affectedPopulation,
      prediction =
        (case map_of (predictions affectedPopulation) disasterType of
           Some table \<Rightarrow> Table table
         | None \<Rightarrow>
             if disasterType \<in> set object_prototype_members then Inherited disasterType
             else Table (defaultPrediction affectedPopulation)),
      generated_at = now,
      fallback_note = ''Fallback prediction based on standard emergency response guidelines''\<rparr>"

section \<open>The gateway to the external services (\<open>aiService.js\<close>)\<close>

text \<open>
  What the services send back is any JavaScript value. An object is the list of its own
  properties; \<open>Native\<close> stands for a built-in function or object, by its name.
\<close>

datatype jsval = Undefined | Null | Bool bool | Num rat | Str string
  | Arr "jsval list" | Obj "(string \<times> jsval) list" | Native string

datatype js_error = Error string | TypeError string

text \<open>
  Reading a property: of \<open>undefined\<close> or \<open>null\<close> a \<open>TypeError\<close>; of an object its own
  property or \<open>undefined\<close>; of any other value \<open>undefined\<close>, for none of the names read
  below is a built-in property of a string, a number, a boolean or an array.
\<close>

fun get_prop :: "jsval \<Rightarrow> string \<Rightarrow> js_error + jsval" where
  "get_prop Undefined k = Inl (TypeError (''Cannot read properties of undefined''))"
| "get_prop Null k = Inl (TypeError (''Cannot read properties of null''))"
| "get_prop (Obj kvs) k = Inr (case map_of kvs k of None \<Rightarrow> Undefined | Some v \<Rightarrow> v)"
| "get_prop v k = Inr Undefined"

text \<open>The promise of \<open>axios.post\<close> under the five-second timeout: rejected with an error
  (no connection, the timeout, a status outside 2xx), or resolved with a response whose
  \<open>data\<close> is the body.\<close>

datatype axios_outcome = Rejected string | Resolved jsval

definition try_catch :: "js_error + 'a \<Rightarrow> (js_error \<Rightarrow> js_error + 'a) \<Rightarrow> js_error + 'a" where
  "try_catch body handler = (case body of Inl error \<Rightarrow> handler error | Inr v \<Rightarrow> Inr v)"

definition and_then :: "js_error + 'a \<Rightarrow> ('a \<Rightarrow> js_error + 'b) \<Rightarrow> js_error + 'b" where
  "and_then m f = (case m of Inl error \<Rightarrow> Inl error | Inr v \<Rightarrow> f v)"

definition await :: "axios_outcome \<Rightarrow> js_error + jsval" where
  "await outcome = (case outcome of Rejected message \<Rightarrow> Inl (Error message)
                                   | Resolved data \<Rightarrow> Inr data)"

text \<open>The results of the fallbacks as the objects the gateway returns.\<close>

fun priority_name :: "priority \<Rightarrow> string" where
  "priority_name URGENT = ''URGENT''"
| "priority_name HIGH = ''HIGH''"
| "priority_name MEDIUM = ''MEDIUM''"
| "priority_name LOW = ''LOW''"

definition classification_obj :: "classification \<Rightarrow> jsval" where
  "classification_obj c =
     Obj [(''priority'', Str (priority_name (priority c))), (''score'', Num (score c)),
          (''reason'', Str (reason c)), (''suggestedCategory'', Str (suggestedCategory c))]"

definition chat_reply_obj :: "chat_reply \<Rightarrow> jsval" where
  "chat_reply_obj r =
     Obj [(''response'', Str (response r)), (''confidence'', Num (confidence r)),
          (''sources'', Arr (map Str (sources r))),
          (''suggested_actions'', Arr (map Str (suggested_actions r))),
          (''timestamp'', Str (timestamp r))]"

definition resource_prediction_obj :: "resource_prediction \<Rightarrow> jsval" where
  "resource_prediction_obj r =
     Obj [(''status'', Str (status r)), (''disaster_type'', Str (disaster_type r)),
          (''affected_population'', Num (affected_population r)),
          (''predictions'',
             (case prediction r of
                Table t \<Rightarrow> Obj (map (\<lambda>(k, n). (k, Num (of_int n))) t)
              | Inherited name \<Rightarrow> Native name)),
          (''timestamp'', Str (generated_at r)), (''note'', Str (fallback_note r))]"

definition prioritizeRequest :: "axios_outcome \<Rightarrow> requestData \<Rightarrow> js_error + jsval" where
  "prioritizeRequest outcome rd =
     try_catch
       (and_then (await outcome) (\<lambda>data.
        and_then (get_prop data ''priority'') (\<lambda>p.
        and_then (get_prop data ''score'') (\<lambda>s.
        and_then (get_prop data ''reason'') (\<lambda>r.
        and_then (get_prop data ''suggested_category'') (\<lambda>c.
        Inr (Obj [(''priority'', p), (''score'', s), (''reason'', r),
                  (''suggestedCategory'', c)])))))))
       (\<lambda>error. Inr (classification_obj (fallbackPrioritization rd)))"

text \<open>
  \<open>query\<close> is whatever the caller passes. \<open>query.substring\<close> and
  \<open>query.toLowerCase\<close> are methods of a string; on any other value the call throws a
  \<open>TypeError\<close> (an object that carries such a method of its own is not modelled).
\<close>

definition string_method :: "jsval \<Rightarrow> string \<Rightarrow> js_error + string" where
  "string_method v m =
     (case v of
        Str s \<Rightarrow> Inr s
      | Undefined \<Rightarrow> Inl (TypeError ''Cannot read properties of undefined'')
      | Null \<Rightarrow> Inl (TypeError ''Cannot read properties of null'')
      | _ \<Rightarrow> Inl (TypeError (''query.'' @ m @ '' is not a function'')))"

text \<open>The call \<open>this.fallbackChatbotResponse(query)\<close> of the \<open>catch\<close> block.\<close>

definition call_fallbackChatbotResponse :: "string \<Rightarrow> jsval \<Rightarrow> js_error + jsval" where
  "call_fallbackChatbotResponse now query =
     and_then (string_method query ''toLowerCase'') (\<lambda>q.
     Inr (chat_reply_obj (fallbackChatbotResponse now q)))"

definition getChatbotResponse :: "axios_outcome \<Rightarrow> string \<Rightarrow> jsval \<Rightarrow> js_error + jsval" where
  "getChatbotResponse outcome now query =
     try_catch
       (and_then (await outcome) (\<lambda>data.
        and_then (string_method query ''substring'') (\<lambda>logged.
        and_then (get_prop data ''response'') (\<lambda>r.
        and_then (get_prop data ''confidence'') (\<lambda>c.
        and_then (get_prop data ''sources'') (\<lambda>s.
        and_then (get_prop data ''suggested_actions'') (\<lambda>a.
        and_then (get_prop data ''timestamp'') (\<lambda>t.
        Inr (Obj [(''response'', r), (''confidence'', c), (''sources'', s),
                  (''suggested_actions'', a), (''timestamp'', t)])))))))))
       (\<lambda>error. call_fallbackChatbotResponse now query)"

definition predictResourceNeeds ::
    "axios_outcome \<Rightarrow> string \<Rightarrow> string \<Rightarrow> rat \<Rightarrow> js_error + jsval" where
  "predictResourceNeeds outcome now disasterType affectedPopulation =
     try_catch (await outcome)
       (\<lambda>error. Inr (resource_prediction_obj
          (fallbackResourcePrediction now disasterType affectedPopulation)))"

section \<open>Rooms and events of the real-time channel (\<open>utils/socket.js\<close>)\<close>

text \<open>
  The Socket.IO server \<open>io\<close>: the connected sockets with the \<open>socket.user\<close> that the
  authentication middleware attached, and for each room name the set of socket ids in
  it. A socket id is the fresh string the library gives a connection; the room that
  the library keeps for each socket under its own id is left out, as no handler names it.
\<close>

type_synonym sid = string

record socket_user =
  user_id :: string
  user_email :: string
  user_role :: string


record server =
  sockets :: "sid \<rightharpoonup> socket_user"
  rooms :: "string \<Rightarrow> sid set"

record delivery =
  recipient :: sid
  event_name :: string
  payload :: jsval

text \<open>What \<open>prisma.message.create\<close> resolves with.\<close>

record saved_message =
  content :: string
  messageType :: string
  createdAt :: string

definition no_server :: server where
  "no_server = \<lparr>sockets = Map.empty, rooms = (\<lambda>room. {})\<rparr>"

definition membersOf :: "server \<Rightarrow> string \<Rightarrow> sid set" where
  "membersOf io room = rooms io room"

text \<open>The library's primitives: \<open>socket.join(room)\<close>, \<open>io.to(room).emit\<close> to every
  member, \<open>socket.to(room).emit\<close> to every member but the socket, \<open>socket.emit\<close> to
  the socket, and the leaving of every room when a socket disconnects.\<close>

definition join :: "server \<Rightarrow> sid \<Rightarrow> string \<Rightarrow> server" where
  "join io s room = io\<lparr>rooms := (rooms io)(room := insert s (rooms io room))\<rparr>"

definition io_to_emit :: "server \<Rightarrow> string \<Rightarrow> string \<Rightarrow> jsval \<Rightarrow> delivery set" where
  "io_to_emit io room ev data =
     (\<lambda>s. \<lparr>recipient = s, event_name = ev, payload = data\<rparr>) ` rooms io room"

definition socket_to_emit :: "server \<Rightarrow> sid \<Rightarrow> string \<Rightarrow> string \<Rightarrow> jsval \<Rightarrow> delivery set" where
  "socket_to_emit io s room ev data =
     (\<lambda>s'. \<lparr>recipient = s', event_name = ev, payload = data\<rparr>) ` (rooms io room - {s})"

definition socket_emit :: "sid \<Rightarrow> string \<Rightarrow> jsval \<Rightarrow> delivery set" where
  "socket_emit s ev data = {\<lparr>recipient = s, event_name = ev, payload = data\<rparr>}"

definition leave_all :: "server \<Rightarrow> sid \<Rightarrow> server" where
  "leave_all io s = io\<lparr>sockets := (sockets io)(s := None), rooms := (\<lambda>room. rooms io room - {s})\<rparr>"

text \<open>The handler of \<open>connection\<close>.\<close>

definition on_connection :: "server \<Rightarrow> sid \<Rightarrow> socket_user \<Rightarrow> server" where
  "on_connection io s u =
     (let io0 = io\<lparr>sockets := (sockets io)(s \<mapsto> u)\<rparr>;
          io1 = join io0 s (''user-'' @ user_id u);
          io2 = join io1 s (toLowerCase (user_role u))
      in if user_role u = ''ADMIN'' \<or> user_role u = ''MODERATOR''
         then join io2 s ''admins'' else io2)"

text \<open>
  What reaches the server. An event of a socket is handled only while the socket is
  connected, since its handlers are registered in \<open>connection\<close>; a connection never
  comes with the id of a connected socket.
\<close>

datatype event =
    Connection sid socket_user
  | JoinRequest sid string
  | JoinChat sid string
  | PrivateMessage sid string "js_error + saved_message"
  | Typing sid string bool
  | Disconnect sid

fun handle :: "server \<Rightarrow> event \<Rightarrow> server \<times> delivery set" where
  "handle io (Connection s u) =
     (if s \<in> dom (sockets io) then (io, {}) else (on_connection io s u, {}))"
| "handle io (JoinRequest s requestId) =
     (if s \<in> dom (sockets io) then (join io s (''request-'' @ requestId), {}) else (io, {}))"
| "handle io (JoinChat s chatId) =
     (if s \<in> dom (sockets io) then (join io s (''chat-'' @ chatId), {}) else (io, {}))"
| "handle io (PrivateMessage s to created) =
     (case sockets io s of
        None \<Rightarrow> (io, {})
      | Some u \<Rightarrow>
          (case created of
             Inr savedMessage \<Rightarrow>
               (io, io_to_emit io (''user-'' @ to) ''private-message''
                      (Obj [(''from'', Str (user_id u)),
                            (''message'', Str (content savedMessage)),
                            (''type'', Str (messageType savedMessage)),
                            (''timestamp'', Str (createdAt savedMessage))]))
           | Inl error \<Rightarrow>
               (io, socket_emit s ''error''
                      (Obj [(''message'', Str ''Failed to send message'')]))))"
| "handle io (Typing s chatId isTyping) =
     (case sockets io s of
        None \<Rightarrow> (io, {})
      | Some u \<Rightarrow>
          (io, socket_to_emit io s (''chat-'' @ chatId) ''user-typing''
                 (Obj [(''userId'', Str (user_id u)), (''isTyping'', Bool isTyping)])))"
| "handle io (Disconnect s) = (leave_all io s, {})"

fun run :: "server \<Rightarrow> event list \<Rightarrow> server" where
  "run io [] = io"
| "run io (e # es) = run (fst (handle io e)) es"

section \<open>The fanout helpers (\<open>utils/socket.js\<close>)\<close>

text \<open>The module variable \<open>io\<close> is \<open>None\<close> until \<open>init\<close> has run.\<close>

datatype log_entry = LogDebug string | LogError string js_error

definition getIO :: "server option \<Rightarrow> js_error + server" where
  "getIO io = (case io of None \<Rightarrow> Inl (Error ''Socket.io not initialized'')
                        | Some server \<Rightarrow> Inr server)"

definition emitNotification ::
    "server option \<Rightarrow> string \<Rightarrow> jsval \<Rightarrow> js_error + delivery set \<times> log_entry list" where
  "emitNotification io userId notification =
     try_catch
       (and_then (getIO io) (\<lambda>server.
          Inr (io_to_emit server (''user-'' @ userId) ''notification'' notification,
               [LogDebug (''Notification emitted to user '' @ userId)])))
       (\<lambda>error. Inr ({}, [LogError ''Error emitting notification:'' error]))"

definition broadcastToAdmins ::
    "server option \<Rightarrow> string \<Rightarrow> jsval \<Rightarrow> js_error + delivery set \<times> log_entry list" where
  "broadcastToAdmins io ev data =
     try_catch
       (and_then (getIO io) (\<lambda>server.
          Inr (io_to_emit server ''admins'' ev data,
               [LogDebug (''Broadcast to admins: '' @ ev)])))
       (\<lambda>error. Inr ({}, [LogError ''Error broadcasting to admins:'' error]))"

text \<open>\<open>now\<close> is the value of \<open>new Date()\<close> at the call.\<close>

definition updateRequestStatus ::
    "server option \<Rightarrow> string \<Rightarrow> string \<Rightarrow> string \<Rightarrow> js_error + delivery set \<times> log_entry list" where
  "updateRequestStatus io now requestId st =
     try_catch
       (and_then (getIO io) (\<lambda>server.
          Inr (io_to_emit server (''request-'' @ requestId) ''request-status-updated''
                 (Obj [(''requestId'', Str requestId), (''status'', Str st),
                       (''updatedAt'', Str now)]),
               [LogDebug (''Request status updated: '' @ requestId @ '' -> '' @ st)])))
       (\<lambda>error. Inr ({}, [LogError ''Error updating request status:'' error]))"

section \<open>Properties of the fallback prioritization\<close>

lemma toFixed2_hundredths: "toFixed2 (of_int n / 100) = of_int n / 100"
proof -
  have "\<lfloor>(of_int n :: rat) + 1 / 2\<rfloor> = n"
    by (rule floor_unique) simp_all
  then show ?thesis
    by (simp add: toFixed2_def)
qed

lemma capped_urgent:
  "toFixed2 (min (9 / 10 + of_nat k / 50) (99 / 100)) = of_int (min (90 + 2 * int k) 99) / 100"
proof -
  have "min (9 / 10 + of_nat k / 50) (99 / 100 :: rat) = of_int (min (90 + 2 * int k) 99) / 100"
    by (simp add: min_def field_simps)
  then show ?thesis
    by (simp only: toFixed2_hundredths)
qed

lemma capped_high:
  "toFixed2 (min (7 / 10 + of_nat k / 20) (99 / 100)) = of_int (min (70 + 5 * int k) 99) / 100"
proof -
  have "min (7 / 10 + of_nat k / 20) (99 / 100 :: rat) = of_int (min (70 + 5 * int k) 99) / 100"
    by (simp add: min_def field_simps)
  then show ?thesis
    by (simp only: toFixed2_hundredths)
qed

text \<open>The three shapes of a result: the emergency rule, the high-priority rule, and the
  rules on the category alone.\<close>

lemma fallback_urgent:
  assumes "0 < emergencyMatches rd"
  shows "fallbackPrioritization rd =
    \<lparr>priority = URGENT,
     score = of_int (min (90 + 2 * int (emergencyMatches rd)) 99) / 100,
     reason = ''Contains '' @ digits (emergencyMatches rd) @ '' emergency keyword(s)'',
     suggestedCategory = category rd\<rparr>"
  using assms
  by (simp add: fallbackPrioritization_def Let_def capped_urgent)

lemma fallback_high:
  assumes "emergencyMatches rd = 0"
    and "0 < highPriorityMatches rd \<or> category rd = ''MEDICAL'' \<or> category rd = ''EMERGENCY''"
  shows "fallbackPrioritization rd =
    \<lparr>priority = HIGH,
     score = of_int (min (70 + 5 * int (highPriorityMatches rd)) 99) / 100,
     reason =
       (if 0 < highPriorityMatches rd
        then ''Contains '' @ digits (highPriorityMatches rd) @ '' high-priority keyword(s)''
        else ''Category-based priority: '' @ category rd),
     suggestedCategory = category rd\<rparr>"
  using assms
  by (auto simp add: fallbackPrioritization_def Let_def capped_high)

lemma fallback_category:
  assumes "emergencyMatches rd = 0" and "highPriorityMatches rd = 0"
    and "category rd \<noteq> ''MEDICAL''" and "category rd \<noteq> ''EMERGENCY''"
  shows "fallbackPrioritization rd =
    \<lparr>priority =
       (if category rd = ''FOOD'' then HIGH
        else if category rd = ''EDUCATION'' \<or> category rd = ''LEGAL'' then MEDIUM
        else LOW),
     score =
       (if category rd = ''FOOD'' then 75 / 100
        else if category rd = ''EDUCATION'' \<or> category rd = ''LEGAL'' then 60 / 100
        else 40 / 100),
     reason = ''Category-based priority: '' @ category rd,
     suggestedCategory = category rd\<rparr>"
proof -
  have fixed: "toFixed2 (75 / 100) = 75 / 100" "toFixed2 (60 / 100) = 60 / 100"
    "toFixed2 (40 / 100) = 40 / 100"
    using toFixed2_hundredths [of 75] toFixed2_hundredths [of 60] toFixed2_hundredths [of 40]
    by simp_all
  show ?thesis
    using assms fixed by (auto simp add: fallbackPrioritization_def Let_def)
qed

text \<open>
  \<open>text.includes(keyword)\<close> is the library's \<^const>\<open>sublist\<close>, and the two counters
  are the numbers of keywords that the lower-cased title and description contain.
\<close>

lemma str_includes_sublist: "str_includes t k \<longleftrightarrow> sublist k t"
  by (induction t) (auto simp: sublist_Cons_right)

lemma distinct_emergencyKeywords: "distinct emergencyKeywords"
  by (simp add: emergencyKeywords_def)

lemma distinct_highPriorityKeywords: "distinct highPriorityKeywords"
  by (simp add: highPriorityKeywords_def)

lemma length_filter_card:
  assumes "distinct xs"
  shows "length (filter P xs) = card {x \<in> set xs. P x}"
proof -
  have "card (set (filter P xs)) = length (filter P xs)"
    by (rule distinct_card) (simp add: assms)
  then show ?thesis
    by simp
qed

lemma emergencyMatches_card:
  "emergencyMatches rd =
     card {kw \<in> set emergencyKeywords.
       sublist kw (toLowerCase (title rd @ '' '' @ description rd))}"
  unfolding emergencyMatches_def request_text_def
  by (simp only: length_filter_card [OF distinct_emergencyKeywords] str_includes_sublist)

lemma highPriorityMatches_card:
  "highPriorityMatches rd =
     card {kw \<in> set highPriorityKeywords.
       sublist kw (toLowerCase (title rd @ '' '' @ description rd))}"
  unfolding highPriorityMatches_def request_text_def
  by (simp only: length_filter_card [OF distinct_highPriorityKeywords] str_includes_sublist)

lemma emergencyMatches_pos_iff:
  "0 < emergencyMatches rd \<longleftrightarrow>
     (\<exists>kw\<in>set emergencyKeywords.
        sublist kw (toLowerCase (title rd @ '' '' @ description rd)))"
proof -
  have "0 < length (filter P xs) \<longleftrightarrow> (\<exists>x\<in>set xs. P x)" for P :: "string \<Rightarrow> bool" and xs
    by (simp add: filter_empty_conv)
  then show ?thesis
    by (simp add: emergencyMatches_def request_text_def str_includes_sublist)
qed

lemma highPriorityMatches_pos_iff:
  "0 < highPriorityMatches rd \<longleftrightarrow>
     (\<exists>kw\<in>set highPriorityKeywords.
        sublist kw (toLowerCase (title rd @ '' '' @ description rd)))"
proof -
  have "0 < length (filter P xs) \<longleftrightarrow> (\<exists>x\<in>set xs. P x)" for P :: "string \<Rightarrow> bool" and xs
    by (simp add: filter_empty_conv)
  then show ?thesis
    by (simp add: highPriorityMatches_def request_text_def str_includes_sublist)
qed

lemma score_hundredths: "\<exists>n::int. 0 \<le> n \<and> n \<le> 99 \<and> score (fallbackPrioritization rd) = of_int n / 100"
proof (cases "0 < emergencyMatches rd")
  case True
  have "0 \<le> min (90 + 2 * int (emergencyMatches rd)) 99"
    "min (90 + 2 * int (emergencyMatches rd)) 99 \<le> 99"
    by simp_all
  then show ?thesis
    using fallback_urgent [OF True] by (metis classification.select_convs(2))
next
  case em: False
  show ?thesis
  proof (cases "0 < highPriorityMatches rd \<or> category rd = ''MEDICAL'' \<or> category rd = ''EMERGENCY''")
    case True
    have "0 \<le> min (70 + 5 * int (highPriorityMatches rd)) 99"
      "min (70 + 5 * int (highPriorityMatches rd)) 99 \<le> 99"
      by simp_all
    then show ?thesis
      using fallback_high [OF _ True] em by (metis classification.select_convs(2) not_gr_zero)
  next
    case False
    then have eq: "score (fallbackPrioritization rd) =
        (if category rd = ''FOOD'' then 75 / 100
         else if category rd = ''EDUCATION'' \<or> category rd = ''LEGAL'' then 60 / 100
         else 40 / 100)"
      using fallback_category [of rd] em by simp
    show ?thesis
      unfolding eq
      by (rule exI [of _ "if category rd = ''FOOD'' then 75
            else if category rd = ''EDUCATION'' \<or> category rd = ''LEGAL'' then 60 else 40"])
        simp
  qed
qed

lemma fallback_priority:
  "priority (fallbackPrioritization rd) =
     (if 0 < emergencyMatches rd then URGENT
      else if 0 < highPriorityMatches rd \<or> category rd = ''MEDICAL''
              \<or> category rd = ''EMERGENCY'' then HIGH
      else if category rd = ''FOOD'' then HIGH
      else if category rd = ''EDUCATION'' \<or> category rd = ''LEGAL'' then MEDIUM
      else LOW)"
  by (simp add: fallbackPrioritization_def Let_def)

text \<open>
  C2. For every title, description and category the fallback classifier returns a
  result (the function is total and has no failing branch); its score lies between 0 and
  0.99 and is a whole number of hundredths; its priority is that of the first rule that
  applies: URGENT if the lower-cased title and description contain an emergency
  keyword; else HIGH if they contain a high-priority keyword or the category is MEDICAL
  or EMERGENCY; else HIGH for FOOD; else MEDIUM for EDUCATION or LEGAL; else LOW.
\<close>

theorem fallbackPrioritization_score_range_and_rule_order:
  "0 \<le> score (fallbackPrioritization rd)
   \<and> score (fallbackPrioritization rd) \<le> 99 / 100
   \<and> (\<exists>n::int. score (fallbackPrioritization rd) = of_int n / 100)
   \<and> priority (fallbackPrioritization rd) =
       (if \<exists>kw\<in>set emergencyKeywords.
             sublist kw (toLowerCase (title rd @ '' '' @ description rd)) then URGENT
        else if (\<exists>kw\<in>set highPriorityKeywords.
                   sublist kw (toLowerCase (title rd @ '' '' @ description rd)))
                \<or> category rd = ''MEDICAL'' \<or> category rd = ''EMERGENCY'' then HIGH
        else if category rd = ''FOOD'' then HIGH
        else if category rd = ''EDUCATION'' \<or> category rd = ''LEGAL'' then MEDIUM
        else LOW)"
proof -
  obtain n :: int where n: "0 \<le> n" "n \<le> 99"
    and s: "score (fallbackPrioritization rd) = of_int n / 100"
    using score_hundredths by blast
  have "0 \<le> score (fallbackPrioritization rd)" "score (fallbackPrioritization rd) \<le> 99 / 100"
    using n by (simp_all add: s)
  moreover have "priority (fallbackPrioritization rd) =
       (if \<exists>kw\<in>set emergencyKeywords.
             sublist kw (toLowerCase (title rd @ '' '' @ description rd)) then URGENT
        else if (\<exists>kw\<in>set highPriorityKeywords.
                   sublist kw (toLowerCase (title rd @ '' '' @ description rd)))
                \<or> category rd = ''MEDICAL'' \<or> category rd = ''EMERGENCY'' then HIGH
        else if category rd = ''FOOD'' then HIGH
        else if category rd = ''EDUCATION'' \<or> category rd = ''LEGAL'' then MEDIUM
        else LOW)"
    unfolding fallback_priority emergencyMatches_pos_iff highPriorityMatches_pos_iff ..
  ultimately show ?thesis
    using s by blast
qed

text \<open>
  C2, at one request for each rule: "FIRE at the Market" (capitals, one emergency
  keyword) is URGENT; "Need medicine" / "for my fever" is HIGH; a MEDICAL request without
  keywords is HIGH; a FOOD request without keywords is HIGH; an EDUCATION request is
  MEDIUM; a request of another category without keywords is LOW; and "Stro\<open>K\<close>e" written
  with the Kelvin sign is URGENT, since its lower case is "stroke".
\<close>

theorem fallbackPrioritization_score_range_and_rule_order_witness:
  "priority (fallbackPrioritization
      \<lparr>title = ''FIRE at the Market'', description = ''Stalls are burning'',
       category = ''OTHER''\<rparr>) = URGENT
   \<and> priority (fallbackPrioritization
      \<lparr>title = ''Need medicine'', description = ''for my fever'', category = ''OTHER''\<rparr>)
       = HIGH
   \<and> priority (fallbackPrioritization
      \<lparr>title = ''Annual checkup'', description = ''routine visit'', category = ''MEDICAL''\<rparr>)
       = HIGH
   \<and> priority (fallbackPrioritization
      \<lparr>title = ''Rice'', description = ''for the family'', category = ''FOOD''\<rparr>) = HIGH
   \<and> priority (fallbackPrioritization
      \<lparr>title = ''School supplies'', description = ''notebooks for class'',
       category = ''EDUCATION''\<rparr>) = MEDIUM
   \<and> priority (fallbackPrioritization
      \<lparr>title = ''Basketball court'', description = ''repaint the lines'',
       category = ''OTHER''\<rparr>) = LOW
   \<and> priority (fallbackPrioritization
      \<lparr>title = ''Stro'' @ [CHR 0xE2, CHR 0x84, CHR 0xAA] @ ''e'',
       description = ''at home'', category = ''OTHER''\<rparr>) = URGENT"
proof -
  let ?r1 = "\<lparr>title = ''FIRE at the Market'', description = ''Stalls are burning'',
    category = ''OTHER''\<rparr>"
  let ?r2 = "\<lparr>title = ''Need medicine'', description = ''for my fever'', category = ''OTHER''\<rparr>"
  let ?r3 = "\<lparr>title = ''Annual checkup'', description = ''routine visit'',
    category = ''MEDICAL''\<rparr>"
  let ?r4 = "\<lparr>title = ''Rice'', description = ''for the family'', category = ''FOOD''\<rparr>"
  let ?r5 = "\<lparr>title = ''School supplies'', description = ''notebooks for class'',
    category = ''EDUCATION''\<rparr>"
  let ?r6 = "\<lparr>title = ''Basketball court'', description = ''repaint the lines'',
    category = ''OTHER''\<rparr>"
  let ?r7 = "\<lparr>title = ''Stro'' @ [CHR 0xE2, CHR 0x84, CHR 0xAA] @ ''e'',
    description = ''at home'', category = ''OTHER''\<rparr>"
  have e: "emergencyMatches ?r1 = 1" "emergencyMatches ?r2 = 0" "emergencyMatches ?r3 = 0"
    "emergencyMatches ?r4 = 0" "emergencyMatches ?r5 = 0" "emergencyMatches ?r6 = 0"
    "emergencyMatches ?r7 = 1"
    by code_simp+
  have h: "highPriorityMatches ?r2 = 2" "highPriorityMatches ?r3 = 0"
    "highPriorityMatches ?r4 = 0" "highPriorityMatches ?r5 = 0" "highPriorityMatches ?r6 = 0"
    by code_simp+
  note pos = emergencyMatches_pos_iff [symmetric] highPriorityMatches_pos_iff [symmetric]
  have "priority (fallbackPrioritization ?r1) = URGENT"
    using fallbackPrioritization_score_range_and_rule_order [of ?r1]
    unfolding pos e by simp
  moreover have "priority (fallbackPrioritization ?r2) = HIGH"
    using fallbackPrioritization_score_range_and_rule_order [of ?r2]
    unfolding pos e h by simp
  moreover have "priority (fallbackPrioritization ?r3) = HIGH"
    using fallbackPrioritization_score_range_and_rule_order [of ?r3]
    unfolding pos e h by simp
  moreover have "priority (fallbackPrioritization ?r4) = HIGH"
    using fallbackPrioritization_score_range_and_rule_order [of ?r4]
    unfolding pos e h by simp
  moreover have "priority (fallbackPrioritization ?r5) = MEDIUM"
    using fallbackPrioritization_score_range_and_rule_order [of ?r5]
    unfolding pos e h by simp
  moreover have "priority (fallbackPrioritization ?r6) = LOW"
    using fallbackPrioritization_score_range_and_rule_order [of ?r6]
    unfolding pos e h by simp
  moreover have "priority (fallbackPrioritization ?r7) = URGENT"
    using fallbackPrioritization_score_range_and_rule_order [of ?r7]
    unfolding pos e by simp
  ultimately show ?thesis
    by blast
qed


text \<open>
  C3. If the lower-cased title and description contain an emergency keyword as a
  substring, then, whatever the category, the priority is URGENT, the score is
  \<open>min(0.99, 0.90 + 0.02 k)\<close> for \<open>k\<close> the number of emergency keywords contained, and the
  reason is "Contains k emergency keyword(s)"; \<open>k\<close> is at least 1.
\<close>

theorem emergency_keyword_yields_urgent:
  assumes "kw \<in> set emergencyKeywords"
    and "sublist kw (toLowerCase (title rd @ '' '' @ description rd))"
  shows "priority (fallbackPrioritization rd) = URGENT
    \<and> score (fallbackPrioritization rd)
        = min (99 / 100)
            (90 / 100 + 2 / 100 * of_nat (card {k \<in> set emergencyKeywords.
               sublist k (toLowerCase (title rd @ '' '' @ description rd))}))
    \<and> reason (fallbackPrioritization rd)
        = ''Contains ''
          @ digits (card {k \<in> set emergencyKeywords.
               sublist k (toLowerCase (title rd @ '' '' @ description rd))})
          @ '' emergency keyword(s)''
    \<and> 1 \<le> card {k \<in> set emergencyKeywords.
               sublist k (toLowerCase (title rd @ '' '' @ description rd))}"
proof -
  have pos: "0 < emergencyMatches rd"
    unfolding emergencyMatches_pos_iff using assms by blast
  have "(of_int (min (90 + 2 * int (emergencyMatches rd)) 99) / 100 :: rat)
      = min (99 / 100) (90 / 100 + 2 / 100 * of_nat (emergencyMatches rd))"
    by (simp add: min_def field_simps)
  then have "priority (fallbackPrioritization rd) = URGENT
    \<and> score (fallbackPrioritization rd)
        = min (99 / 100) (90 / 100 + 2 / 100 * of_nat (emergencyMatches rd))
    \<and> reason (fallbackPrioritization rd)
        = ''Contains '' @ digits (emergencyMatches rd) @ '' emergency keyword(s)''
    \<and> 1 \<le> emergencyMatches rd"
    using pos by (simp add: fallback_urgent [OF pos])
  then show ?thesis
    unfolding emergencyMatches_card .
qed

text \<open>
  C3, at three requests. "There is a fire emergency" / "need help now" / OTHER contains
  two keywords ("emergency" and "fire"): URGENT, score 0.94, "Contains 2 emergency
  keyword(s)". "FIRE at the Market" / "Stalls are burning" contains one, written in
  capitals: URGENT, score 0.92, "Contains 1 emergency keyword(s)". A FOOD request that
  contains six ("urgent", "fire", "flood", "child", "missing", "danger") has the capped
  score 0.99.
\<close>

theorem emergency_keyword_yields_urgent_witness:
  "fallbackPrioritization
      \<lparr>title = ''There is a fire emergency'', description = ''need help now'',
       category = ''OTHER''\<rparr>
     = \<lparr>priority = URGENT, score = 94 / 100, reason = ''Contains 2 emergency keyword(s)'',
        suggestedCategory = ''OTHER''\<rparr>
   \<and> fallbackPrioritization
      \<lparr>title = ''FIRE at the Market'', description = ''Stalls are burning'',
       category = ''OTHER''\<rparr>
     = \<lparr>priority = URGENT, score = 92 / 100, reason = ''Contains 1 emergency keyword(s)'',
        suggestedCategory = ''OTHER''\<rparr>
   \<and> fallbackPrioritization
      \<lparr>title = ''Urgent: fire and flood'',
       description = ''A child is missing, danger near the river'', category = ''FOOD''\<rparr>
     = \<lparr>priority = URGENT, score = 99 / 100, reason = ''Contains 6 emergency keyword(s)'',
        suggestedCategory = ''FOOD''\<rparr>"
proof -
  let ?r1 = "\<lparr>title = ''There is a fire emergency'', description = ''need help now'',
    category = ''OTHER''\<rparr>"
  let ?r2 = "\<lparr>title = ''FIRE at the Market'', description = ''Stalls are burning'',
    category = ''OTHER''\<rparr>"
  let ?r3 = "\<lparr>title = ''Urgent: fire and flood'',
    description = ''A child is missing, danger near the river'', category = ''FOOD''\<rparr>"
  have k: "''fire'' \<in> set emergencyKeywords"
    by (simp add: emergencyKeywords_def)
  have i: "str_includes (toLowerCase (title ?r1 @ '' '' @ description ?r1)) ''fire''"
    "str_includes (toLowerCase (title ?r2 @ '' '' @ description ?r2)) ''fire''"
    "str_includes (toLowerCase (title ?r3 @ '' '' @ description ?r3)) ''fire''"
    by code_simp+
  have m: "emergencyMatches ?r1 = 2" "emergencyMatches ?r2 = 1" "emergencyMatches ?r3 = 6"
    by code_simp+
  have d: "digits 2 = ''2''" "digits 1 = ''1''" "digits 6 = ''6''"
    by code_simp+
  have c: "suggestedCategory (fallbackPrioritization rd) = category rd" for rd
    by (simp add: fallbackPrioritization_def Let_def split: prod.splits)
  have "priority (fallbackPrioritization ?r1) = URGENT
    \<and> score (fallbackPrioritization ?r1) = 94 / 100
    \<and> reason (fallbackPrioritization ?r1) = ''Contains 2 emergency keyword(s)''"
    using emergency_keyword_yields_urgent [OF k i(1) [unfolded str_includes_sublist]]
    unfolding emergencyMatches_card [symmetric] m d by simp
  then have r1: "fallbackPrioritization ?r1 =
      \<lparr>priority = URGENT, score = 94 / 100, reason = ''Contains 2 emergency keyword(s)'',
       suggestedCategory = ''OTHER''\<rparr>"
    using c [of ?r1] by (cases "fallbackPrioritization ?r1") simp
  have "priority (fallbackPrioritization ?r2) = URGENT
    \<and> score (fallbackPrioritization ?r2) = 92 / 100
    \<and> reason (fallbackPrioritization ?r2) = ''Contains 1 emergency keyword(s)''"
    using emergency_keyword_yields_urgent [OF k i(2) [unfolded str_includes_sublist]]
    unfolding emergencyMatches_card [symmetric] m d by simp
  then have r2: "fallbackPrioritization ?r2 =
      \<lparr>priority = URGENT, score = 92 / 100, reason = ''Contains 1 emergency keyword(s)'',
       suggestedCategory = ''OTHER''\<rparr>"
    using c [of ?r2] by (cases "fallbackPrioritization ?r2") simp
  have "priority (fallbackPrioritization ?r3) = URGENT
    \<and> score (fallbackPrioritization ?r3) = 99 / 100
    \<and> reason (fallbackPrioritization ?r3) = ''Contains 6 emergency keyword(s)''"
    using emergency_keyword_yields_urgent [OF k i(3) [unfolded str_includes_sublist]]
    unfolding emergencyMatches_card [symmetric] m d by simp
  then have r3: "fallbackPrioritization ?r3 =
      \<lparr>priority = URGENT, score = 99 / 100, reason = ''Contains 6 emergency keyword(s)'',
       suggestedCategory = ''FOOD''\<rparr>"
    using c [of ?r3] by (cases "fallbackPrioritization ?r3") simp
  show ?thesis
    using r1 r2 r3 by blast
qed

text \<open>
  C4 fails as stated where no high-priority keyword is contained and the category is
  MEDICAL: the request "Annual checkup" / "routine visit" / MEDICAL contains no keyword
  of either list, is HIGH with score 0.70, and its reason is "Category-based priority:
  MEDICAL", not "Contains 0 high-priority keyword(s)".
\<close>

theorem high_priority_reason_counterexample:
  "emergencyMatches
      \<lparr>title = ''Annual checkup'', description = ''routine visit'', category = ''MEDICAL''\<rparr> = 0
   \<and> highPriorityMatches
      \<lparr>title = ''Annual checkup'', description = ''routine visit'', category = ''MEDICAL''\<rparr> = 0
   \<and> fallbackPrioritization
      \<lparr>title = ''Annual checkup'', description = ''routine visit'', category = ''MEDICAL''\<rparr>
     = \<lparr>priority = HIGH, score = 70 / 100, reason = ''Category-based priority: MEDICAL'',
        suggestedCategory = ''MEDICAL''\<rparr>
   \<and> reason (fallbackPrioritization
      \<lparr>title = ''Annual checkup'', description = ''routine visit'', category = ''MEDICAL''\<rparr>)
       \<noteq> ''Contains 0 high-priority keyword(s)''"
  by code_simp

text \<open>
  C4, amended. If the lower-cased title and description contain no emergency keyword,
  and the number \<open>N\<close> of high-priority keywords they contain is positive or the category
  is MEDICAL or EMERGENCY, the priority is HIGH and the score is
  \<open>min(0.99, 0.70 + 0.05 N)\<close>; the reason is "Contains N high-priority keyword(s)" when
  \<open>N\<close> is positive and "Category-based priority: <category>" when \<open>N\<close> is 0.
\<close>

theorem high_priority_rule:
  assumes "\<not> (\<exists>kw\<in>set emergencyKeywords.
        sublist kw (toLowerCase (title rd @ '' '' @ description rd)))"
    and "0 < card {kw \<in> set highPriorityKeywords.
            sublist kw (toLowerCase (title rd @ '' '' @ description rd))}
      \<or> category rd = ''MEDICAL'' \<or> category rd = ''EMERGENCY''"
  shows "priority (fallbackPrioritization rd) = HIGH
    \<and> score (fallbackPrioritization rd)
        = min (99 / 100)
            (70 / 100 + 5 / 100 * of_nat (card {kw \<in> set highPriorityKeywords.
               sublist kw (toLowerCase (title rd @ '' '' @ description rd))}))
    \<and> reason (fallbackPrioritization rd)
        = (if 0 < card {kw \<in> set highPriorityKeywords.
                    sublist kw (toLowerCase (title rd @ '' '' @ description rd))}
           then ''Contains ''
             @ digits (card {kw \<in> set highPriorityKeywords.
                  sublist kw (toLowerCase (title rd @ '' '' @ description rd))})
             @ '' high-priority keyword(s)''
           else ''Category-based priority: '' @ category rd)"
proof -
  have em: "emergencyMatches rd = 0"
    using assms(1) emergencyMatches_pos_iff [of rd] by simp
  have hp: "0 < highPriorityMatches rd \<or> category rd = ''MEDICAL''
      \<or> category rd = ''EMERGENCY''"
    using assms(2) unfolding highPriorityMatches_card .
  have "(of_int (min (70 + 5 * int (highPriorityMatches rd)) 99) / 100 :: rat)
      = min (99 / 100) (70 / 100 + 5 / 100 * of_nat (highPriorityMatches rd))"
    by (simp add: min_def field_simps)
  then have "priority (fallbackPrioritization rd) = HIGH
    \<and> score (fallbackPrioritization rd)
        = min (99 / 100) (70 / 100 + 5 / 100 * of_nat (highPriorityMatches rd))
    \<and> reason (fallbackPrioritization rd)
        = (if 0 < highPriorityMatches rd
           then ''Contains '' @ digits (highPriorityMatches rd) @ '' high-priority keyword(s)''
           else ''Category-based priority: '' @ category rd)"
    by (simp add: fallback_high [OF em hp])
  then show ?thesis
    unfolding highPriorityMatches_card .
qed

text \<open>
  C4, amended, at three requests. "Need medicine" / "for my fever" / OTHER contains two
  high-priority keywords: HIGH, 0.80, "Contains 2 high-priority keyword(s)". "WATER
  supply" / "cut since Monday" / OTHER contains one, in capitals: HIGH, 0.75. "Annual
  checkup" / "routine visit" / MEDICAL contains none: HIGH, 0.70, with the reason taken
  from the category.
\<close>

theorem high_priority_rule_witness:
  "fallbackPrioritization
      \<lparr>title = ''Need medicine'', description = ''for my fever'', category = ''OTHER''\<rparr>
     = \<lparr>priority = HIGH, score = 80 / 100, reason = ''Contains 2 high-priority keyword(s)'',
        suggestedCategory = ''OTHER''\<rparr>
   \<and> fallbackPrioritization
      \<lparr>title = ''WATER supply'', description = ''cut since Monday'', category = ''OTHER''\<rparr>
     = \<lparr>priority = HIGH, score = 75 / 100, reason = ''Contains 1 high-priority keyword(s)'',
        suggestedCategory = ''OTHER''\<rparr>
   \<and> fallbackPrioritization
      \<lparr>title = ''Annual checkup'', description = ''routine visit'', category = ''MEDICAL''\<rparr>
     = \<lparr>priority = HIGH, score = 70 / 100, reason = ''Category-based priority: MEDICAL'',
        suggestedCategory = ''MEDICAL''\<rparr>"
proof -
  let ?r1 = "\<lparr>title = ''Need medicine'', description = ''for my fever'', category = ''OTHER''\<rparr>"
  let ?r2 = "\<lparr>title = ''WATER supply'', description = ''cut since Monday'',
    category = ''OTHER''\<rparr>"
  let ?r3 = "\<lparr>title = ''Annual checkup'', description = ''routine visit'',
    category = ''MEDICAL''\<rparr>"
  have e: "emergencyMatches ?r1 = 0" "emergencyMatches ?r2 = 0" "emergencyMatches ?r3 = 0"
    by code_simp+
  have h: "highPriorityMatches ?r1 = 2" "highPriorityMatches ?r2 = 1"
    "highPriorityMatches ?r3 = 0"
    by code_simp+
  have d: "digits 2 = ''2''" "digits 1 = ''1''"
    by code_simp+
  have c: "suggestedCategory (fallbackPrioritization rd) = category rd" for rd
    by (simp add: fallbackPrioritization_def Let_def split: prod.splits)
  have none: "\<not> (\<exists>kw\<in>set emergencyKeywords.
        sublist kw (toLowerCase (title rd @ '' '' @ description rd)))"
    if "emergencyMatches rd = 0" for rd
    using that emergencyMatches_pos_iff [of rd] by simp
  have "priority (fallbackPrioritization ?r1) = HIGH
    \<and> score (fallbackPrioritization ?r1) = 80 / 100
    \<and> reason (fallbackPrioritization ?r1) = ''Contains 2 high-priority keyword(s)''"
    using high_priority_rule [OF none [OF e(1)]]
    unfolding highPriorityMatches_card [symmetric] h d by simp
  then have r1: "fallbackPrioritization ?r1
     = \<lparr>priority = HIGH, score = 80 / 100, reason = ''Contains 2 high-priority keyword(s)'',
        suggestedCategory = ''OTHER''\<rparr>"
    using c [of ?r1] by (cases "fallbackPrioritization ?r1") simp
  have "priority (fallbackPrioritization ?r2) = HIGH
    \<and> score (fallbackPrioritization ?r2) = 75 / 100
    \<and> reason (fallbackPrioritization ?r2) = ''Contains 1 high-priority keyword(s)''"
    using high_priority_rule [OF none [OF e(2)]]
    unfolding highPriorityMatches_card [symmetric] h d by simp
  then have r2: "fallbackPrioritization ?r2
     = \<lparr>priority = HIGH, score = 75 / 100, reason = ''Contains 1 high-priority keyword(s)'',
        suggestedCategory = ''OTHER''\<rparr>"
    using c [of ?r2] by (cases "fallbackPrioritization ?r2") simp
  have "priority (fallbackPrioritization ?r3) = HIGH
    \<and> score (fallbackPrioritization ?r3) = 70 / 100
    \<and> reason (fallbackPrioritization ?r3) = ''Category-based priority: MEDICAL''"
    using high_priority_rule [OF none [OF e(3)]]
    unfolding highPriorityMatches_card [symmetric] h by simp
  then have r3: "fallbackPrioritization ?r3
     = \<lparr>priority = HIGH, score = 70 / 100, reason = ''Category-based priority: MEDICAL'',
        suggestedCategory = ''MEDICAL''\<rparr>"
    using c [of ?r3] by (cases "fallbackPrioritization ?r3") simp
  show ?thesis
    using r1 r2 r3 by blast
qed

text \<open>
  C5 fails as stated between URGENT and HIGH: "Fire" / "at the market" is URGENT with
  score 0.92 (one emergency keyword), while a request containing six high-priority
  keywords and no emergency keyword is HIGH with score 0.99.
\<close>

theorem score_order_counterexample:
  "priority_rank (priority (fallbackPrioritization
      \<lparr>title = ''Need medicine'',
       description = ''sick with fever and cough, hungry, no medication'',
       category = ''OTHER''\<rparr>))
   < priority_rank (priority (fallbackPrioritization
      \<lparr>title = ''Fire'', description = ''at the market'', category = ''OTHER''\<rparr>))
   \<and> score (fallbackPrioritization
      \<lparr>title = ''Fire'', description = ''at the market'', category = ''OTHER''\<rparr>) = 92 / 100
   \<and> score (fallbackPrioritization
      \<lparr>title = ''Need medicine'',
       description = ''sick with fever and cough, hungry, no medication'',
       category = ''OTHER''\<rparr>) = 99 / 100
   \<and> \<not> score (fallbackPrioritization
      \<lparr>title = ''Need medicine'',
       description = ''sick with fever and cough, hungry, no medication'',
       category = ''OTHER''\<rparr>)
     \<le> score (fallbackPrioritization
      \<lparr>title = ''Fire'', description = ''at the market'', category = ''OTHER''\<rparr>)"
  by code_simp

text \<open>The scores that go with each priority.\<close>

lemma score_by_priority:
  "(priority (fallbackPrioritization rd) = URGENT \<longrightarrow>
      92 / 100 \<le> score (fallbackPrioritization rd))
   \<and> (priority (fallbackPrioritization rd) = HIGH \<longrightarrow>
      70 / 100 \<le> score (fallbackPrioritization rd)
      \<and> (highPriorityMatches rd \<le> 4 \<longrightarrow> score (fallbackPrioritization rd) \<le> 90 / 100))
   \<and> (priority (fallbackPrioritization rd) = MEDIUM \<longrightarrow>
      score (fallbackPrioritization rd) = 60 / 100)
   \<and> (priority (fallbackPrioritization rd) = LOW \<longrightarrow>
      score (fallbackPrioritization rd) = 40 / 100)"
proof (cases "0 < emergencyMatches rd")
  case True
  then show ?thesis
    by (simp add: fallback_urgent [OF True] min_def)
next
  case em: False
  show ?thesis
  proof (cases "0 < highPriorityMatches rd \<or> category rd = ''MEDICAL'' \<or> category rd = ''EMERGENCY''")
    case True
    have "emergencyMatches rd = 0"
      using em by simp
    from fallback_high [OF this True] show ?thesis
      by (simp add: min_def)
  next
    case False
    then show ?thesis
      using fallback_category [of rd] em by simp
  qed
qed

text \<open>
  C5, amended. Every score is at most 0.99. If the result for \<open>x\<close> has a strictly higher
  priority than the result for \<open>y\<close>, then the score of \<open>x\<close> is at least the score of
  \<open>y\<close>, except possibly when \<open>x\<close> is URGENT and \<open>y\<close> is HIGH with five or more
  high-priority keywords.
\<close>

theorem score_order_outside_urgent_over_high:
  "score (fallbackPrioritization x) \<le> 99 / 100
   \<and> (priority_rank (priority (fallbackPrioritization y))
        < priority_rank (priority (fallbackPrioritization x))
      \<longrightarrow> (priority (fallbackPrioritization x) = URGENT
           \<and> priority (fallbackPrioritization y) = HIGH \<longrightarrow> highPriorityMatches y \<le> 4)
      \<longrightarrow> score (fallbackPrioritization y) \<le> score (fallbackPrioritization x))"
proof -
  have cap: "score (fallbackPrioritization x) \<le> 99 / 100"
    using score_hundredths [of x] by auto
  have "score (fallbackPrioritization y) \<le> score (fallbackPrioritization x)"
    if "priority_rank (priority (fallbackPrioritization y))
        < priority_rank (priority (fallbackPrioritization x))"
      and "priority (fallbackPrioritization x) = URGENT
        \<and> priority (fallbackPrioritization y) = HIGH \<longrightarrow> highPriorityMatches y \<le> 4"
    using that score_by_priority [of x] score_by_priority [of y]
    by (cases "priority (fallbackPrioritization x)"; cases "priority (fallbackPrioritization y)")
      auto
  then show ?thesis
    using cap by blast
qed

text \<open>
  C5, amended, at an URGENT request (score 0.92) and a HIGH request with two
  high-priority keywords (score 0.80).
\<close>

theorem score_order_outside_urgent_over_high_witness:
  "priority (fallbackPrioritization
      \<lparr>title = ''Fire'', description = ''at the market'', category = ''OTHER''\<rparr>) = URGENT
   \<and> priority (fallbackPrioritization
      \<lparr>title = ''Need medicine'', description = ''for my fever'', category = ''OTHER''\<rparr>) = HIGH
   \<and> highPriorityMatches
      \<lparr>title = ''Need medicine'', description = ''for my fever'', category = ''OTHER''\<rparr> \<le> 4
   \<and> score (fallbackPrioritization
      \<lparr>title = ''Need medicine'', description = ''for my fever'', category = ''OTHER''\<rparr>)
     \<le> score (fallbackPrioritization
      \<lparr>title = ''Fire'', description = ''at the market'', category = ''OTHER''\<rparr>)
   \<and> score (fallbackPrioritization
      \<lparr>title = ''Fire'', description = ''at the market'', category = ''OTHER''\<rparr>) \<le> 99 / 100"
proof -
  let ?x = "\<lparr>title = ''Fire'', description = ''at the market'', category = ''OTHER''\<rparr>"
  let ?y = "\<lparr>title = ''Need medicine'', description = ''for my fever'', category = ''OTHER''\<rparr>"
  have px: "priority (fallbackPrioritization ?x) = URGENT"
    by code_simp
  have py: "priority (fallbackPrioritization ?y) = HIGH"
    by code_simp
  have h: "highPriorityMatches ?y = 2"
    by code_simp
  show ?thesis
    using score_order_outside_urgent_over_high [of ?x ?y] by (simp add: px py h)
qed

section \<open>Properties of the fallback chatbot response\<close>

text \<open>
  Lower-casing keeps every occurrence of a keyword that consists of ASCII characters
  other than capitals.
\<close>

lemma toLowerCase_ascii_head:
  assumes "(of_char c :: nat) < 128"
  shows "toLowerCase (c # cs) = toLowerChar c # toLowerCase cs"
proof -
  have "c \<noteq> CHR 0xE2" "c \<noteq> CHR 0xC4"
    using assms by auto
  then show ?thesis
    by (simp add: toLowerCase.simps kelvin_sign_def capital_i_with_dot_def)
qed

lemma prefix_toLowerCase:
  assumes "\<forall>c\<in>set k. (of_char c :: nat) < 128 \<and> toLowerChar c = c" and "prefix k q"
  shows "prefix k (toLowerCase q)"
  using assms
proof (induction k arbitrary: q)
  case Nil
  then show ?case by simp
next
  case (Cons x k)
  from Cons.prems(2) obtain q' where q: "q = x # q'" and p: "prefix k q'"
    by (cases q) auto
  have x: "(of_char x :: nat) < 128" "toLowerChar x = x"
    and k: "\<forall>c\<in>set k. (of_char c :: nat) < 128 \<and> toLowerChar c = c"
    using Cons.prems(1) by auto
  have "toLowerCase q = x # toLowerCase q'"
    using toLowerCase_ascii_head [OF x(1)] x(2) q by simp
  then show ?case
    using Cons.IH [OF k p] by simp
qed

lemma sublist_toLowerCase:
  assumes "\<forall>c\<in>set k. (of_char c :: nat) < 128 \<and> toLowerChar c = c" and "sublist k q"
  shows "sublist k (toLowerCase q)"
  using assms(2)
proof (induction q rule: toLowerCase.induct)
  case 1
  then show ?case by (simp add: toLowerCase.simps)
next
  case (2 c cs)
  show ?case
  proof (cases "k = []")
    case True
    then show ?thesis by simp
  next
    case nonempty: False
    then obtain x k' where kx: "k = x # k'"
      by (cases k) auto
    have x: "(of_char x :: nat) < 128"
      using assms(1) kx by simp
    have no_high: "\<not> prefix k (y # ys)" if "\<not> (of_char y :: nat) < 128" for y ys
      using that x kx by auto
    show ?thesis
    proof (cases "prefix k (c # cs)")
      case True
      then show ?thesis
        using prefix_toLowerCase [OF assms(1)] by (meson prefix_imp_sublist)
    next
      case False
      then have tail: "sublist k cs"
        using "2.prems" by (simp add: sublist_Cons_right)
      consider (kelvin) "prefix kelvin_sign (c # cs)"
        | (idot) "\<not> prefix kelvin_sign (c # cs)" "prefix capital_i_with_dot (c # cs)"
        | (plain) "\<not> prefix kelvin_sign (c # cs)" "\<not> prefix capital_i_with_dot (c # cs)"
        by blast
      then show ?thesis
      proof cases
        case kelvin
        then obtain r where cs: "cs = CHR 0x84 # CHR 0xAA # r"
          by (auto simp: kelvin_sign_def prefix_def)
        have "sublist k r"
          using tail no_high [of "CHR 0x84"] no_high [of "CHR 0xAA"]
          by (simp add: cs sublist_Cons_right)
        then have "sublist k (toLowerCase (drop 2 cs))"
          using "2.IH"(1) [OF kelvin] by (simp add: cs)
        then show ?thesis
          using kelvin by (simp add: toLowerCase.simps sublist_Cons_right)
      next
        case idot
        then obtain r where cs: "cs = CHR 0xB0 # r"
          by (auto simp: capital_i_with_dot_def prefix_def)
        have "sublist k r"
          using tail no_high [of "CHR 0xB0"] by (simp add: cs sublist_Cons_right)
        then have "sublist k (toLowerCase (drop 1 cs))"
          using "2.IH"(2) [OF idot] by (simp add: cs)
        then show ?thesis
          using idot by (simp add: toLowerCase.simps sublist_append)
      next
        case plain
        have "sublist k (toLowerCase cs)"
          using "2.IH"(3) [OF plain] tail by simp
        then show ?thesis
          using plain by (simp add: toLowerCase.simps sublist_Cons_right)
      qed
    qed
  qed
qed

lemma kamusta_ascii: "\<forall>c\<in>set ''kamusta''. (of_char c :: nat) < 128 \<and> toLowerChar c = c"
  by (simp add: toLowerChar_def)

lemma pattern_matches_iff:
  "pattern_matches lq pattern \<longleftrightarrow> (\<exists>p\<in>set (split_bar pattern). sublist p lq)"
  by (simp add: pattern_matches_def list_ex_iff str_includes_sublist)

lemma find_response_None:
  "find_response es lq = None \<longleftrightarrow> (\<forall>i<length es. \<not> pattern_matches lq (fst (es ! i)))"
proof (induction es)
  case Nil
  then show ?case by simp
next
  case (Cons e es)
  obtain pattern config where e: "e = (pattern, config)"
    by (cases e)
  show ?case
    using Cons.IH by (auto simp: e nth_Cons less_Suc_eq_0_disj split: nat.splits)
qed

lemma find_response_first:
  assumes "i < length es" and "pattern_matches lq (fst (es ! i))"
    and "\<forall>j<i. \<not> pattern_matches lq (fst (es ! j))"
  shows "find_response es lq = Some (snd (es ! i))"
  using assms
proof (induction es arbitrary: i)
  case Nil
  then show ?case by simp
next
  case (Cons e es)
  obtain pattern config where e: "e = (pattern, config)"
    by (cases e)
  show ?case
  proof (cases i)
    case 0
    then show ?thesis
      using Cons.prems by (simp add: e)
  next
    case (Suc k)
    have first: "\<not> pattern_matches lq pattern"
      using Cons.prems(3) Suc by (auto simp: e)
    have "find_response es lq = Some (snd (es ! k))"
    proof (rule Cons.IH)
      show "k < length es"
        using Cons.prems(1) Suc by simp
      show "pattern_matches lq (fst (es ! k))"
        using Cons.prems(2) Suc by simp
      show "\<forall>j<k. \<not> pattern_matches lq (fst (es ! j))"
        using Cons.prems(3) Suc by auto
    qed
    then show ?thesis
      using first Suc by (simp add: e)
  qed
qed

lemma responses_patterns:
  "map (split_bar \<circ> fst) responses =
    [[''hello'', ''hi'', ''hey'', ''kamusta''],
     [''request'', ''help'', ''assistance'', ''tulong''],
     [''medical'', ''doctor'', ''hospital'', ''sakit'', ''gamot''],
     [''food'', ''hunger'', ''meal'', ''gutom'', ''pagkain''],
     [''event'', ''activity'', ''program'', ''meeting'', ''pulong''],
     [''donate'', ''donation'', ''contribute'', ''bigay'', ''abuloy''],
     [''volunteer'', ''volunteering'', ''help others'', ''tumulong'', ''boluntaryo''],
     [''clearance'', ''certificate'', ''document'', ''permit'', ''cedula''],
     [''complaint'', ''problem'', ''issue'', ''reklamo'', ''problema''],
     [''thank'', ''thanks'', ''salamat'', ''maraming salamat''],
     [''contact'', ''phone'', ''number'', ''tawag'', ''telepono'']]"
  by code_simp

lemma greeting_first:
  assumes "str_includes lq ''kamusta''"
  shows "find_response responses lq =
    Some \<lparr>cfg_response = ''Hello! How can I help you with BarangayLink today?'',
          cfg_confidence = 9 / 10,
          cfg_actions = [''Submit Request'', ''Browse Events'', ''Make Donation'']\<rparr>"
proof -
  have s: "split_bar ''hello|hi|hey|kamusta'' = [''hello'', ''hi'', ''hey'', ''kamusta'']"
    by code_simp
  have "pattern_matches lq ''hello|hi|hey|kamusta''"
    unfolding pattern_matches_def s using assms by simp
  then show ?thesis
    unfolding responses_def by (simp only: find_response.simps if_True)
qed


text \<open>
  C7. The reply is that of the first entry of \<open>responses\<close>, in the order written, one
  of whose \<open>|\<close>-separated patterns is a substring of the lower-cased query, with that
  entry's confidence and actions; if no pattern of any entry is one, it is the default
  reply with confidence 0.3, no sources and the three generic actions. A query that
  contains "kamusta" gets the greeting with confidence 0.9, whatever else it contains.
  The patterns of the eleven entries are listed in their order.
\<close>

theorem fallbackChatbotResponse_first_match_wins:
  "(\<forall>i<length responses.
      (\<exists>p\<in>set (split_bar (fst (responses ! i))). sublist p (toLowerCase query))
      \<and> (\<forall>j<i. \<forall>p\<in>set (split_bar (fst (responses ! j))). \<not> sublist p (toLowerCase query))
      \<longrightarrow> fallbackChatbotResponse now query =
          \<lparr>response = cfg_response (snd (responses ! i)),
           confidence = cfg_confidence (snd (responses ! i)),
           sources = [''BarangayLink FAQ Database''],
           suggested_actions = cfg_actions (snd (responses ! i)),
           timestamp = now\<rparr>)
   \<and> ((\<forall>i<length responses.
          \<forall>p\<in>set (split_bar (fst (responses ! i))). \<not> sublist p (toLowerCase query))
      \<longrightarrow> fallbackChatbotResponse now query =
          \<lparr>response = ''I'' @ [CHR 0x27] @ ''m not sure about that. Please contact the barangay office directly for specific inquiries or check our FAQ section.'',
           confidence = 3 / 10,
           sources = [],
           suggested_actions = [''Contact Support'', ''Browse FAQ'', ''Submit General Inquiry''],
           timestamp = now\<rparr>)
   \<and> (sublist ''kamusta'' query \<or> sublist ''kamusta'' (toLowerCase query)
      \<longrightarrow> fallbackChatbotResponse now query =
          \<lparr>response = ''Hello! How can I help you with BarangayLink today?'',
           confidence = 9 / 10,
           sources = [''BarangayLink FAQ Database''],
           suggested_actions = [''Submit Request'', ''Browse Events'', ''Make Donation''],
           timestamp = now\<rparr>)
   \<and> map (\<lambda>entry. split_bar (fst entry)) responses =
       [[''hello'', ''hi'', ''hey'', ''kamusta''],
        [''request'', ''help'', ''assistance'', ''tulong''],
        [''medical'', ''doctor'', ''hospital'', ''sakit'', ''gamot''],
        [''food'', ''hunger'', ''meal'', ''gutom'', ''pagkain''],
        [''event'', ''activity'', ''program'', ''meeting'', ''pulong''],
        [''donate'', ''donation'', ''contribute'', ''bigay'', ''abuloy''],
        [''volunteer'', ''volunteering'', ''help others'', ''tumulong'', ''boluntaryo''],
        [''clearance'', ''certificate'', ''document'', ''permit'', ''cedula''],
        [''complaint'', ''problem'', ''issue'', ''reklamo'', ''problema''],
        [''thank'', ''thanks'', ''salamat'', ''maraming salamat''],
        [''contact'', ''phone'', ''number'', ''tawag'', ''telepono'']]"
proof (intro conjI allI impI)
  fix i
  assume "i < length responses"
    and "(\<exists>p\<in>set (split_bar (fst (responses ! i))). sublist p (toLowerCase query))
      \<and> (\<forall>j<i. \<forall>p\<in>set (split_bar (fst (responses ! j))). \<not> sublist p (toLowerCase query))"
  then have "find_response responses (toLowerCase query) = Some (snd (responses ! i))"
    by (intro find_response_first) (auto simp: pattern_matches_iff)
  then show "fallbackChatbotResponse now query =
      \<lparr>response = cfg_response (snd (responses ! i)),
       confidence = cfg_confidence (snd (responses ! i)),
       sources = [''BarangayLink FAQ Database''],
       suggested_actions = cfg_actions (snd (responses ! i)),
       timestamp = now\<rparr>"
    by (simp add: fallbackChatbotResponse_def matched_reply_def)
next
  assume "\<forall>i<length responses.
      \<forall>p\<in>set (split_bar (fst (responses ! i))). \<not> sublist p (toLowerCase query)"
  then have "find_response responses (toLowerCase query) = None"
    by (simp add: find_response_None pattern_matches_iff)
  then show "fallbackChatbotResponse now query =
      \<lparr>response = ''I'' @ [CHR 0x27] @ ''m not sure about that. Please contact the barangay office directly for specific inquiries or check our FAQ section.'',
       confidence = 3 / 10,
       sources = [],
       suggested_actions = [''Contact Support'', ''Browse FAQ'', ''Submit General Inquiry''],
       timestamp = now\<rparr>"
    by (simp add: fallbackChatbotResponse_def default_reply_def)
next
  assume "sublist ''kamusta'' query \<or> sublist ''kamusta'' (toLowerCase query)"
  then have "sublist ''kamusta'' (toLowerCase query)"
    using sublist_toLowerCase [OF kamusta_ascii] by blast
  then have "find_response responses (toLowerCase query) =
    Some \<lparr>cfg_response = ''Hello! How can I help you with BarangayLink today?'',
          cfg_confidence = 9 / 10,
          cfg_actions = [''Submit Request'', ''Browse Events'', ''Make Donation'']\<rparr>"
    by (intro greeting_first) (simp add: str_includes_sublist)
  then show "fallbackChatbotResponse now query =
      \<lparr>response = ''Hello! How can I help you with BarangayLink today?'',
       confidence = 9 / 10,
       sources = [''BarangayLink FAQ Database''],
       suggested_actions = [''Submit Request'', ''Browse Events'', ''Make Donation''],
       timestamp = now\<rparr>"
    by (simp add: fallbackChatbotResponse_def matched_reply_def)
next
  show "map (\<lambda>entry. split_bar (fst entry)) responses =
       [[''hello'', ''hi'', ''hey'', ''kamusta''],
        [''request'', ''help'', ''assistance'', ''tulong''],
        [''medical'', ''doctor'', ''hospital'', ''sakit'', ''gamot''],
        [''food'', ''hunger'', ''meal'', ''gutom'', ''pagkain''],
        [''event'', ''activity'', ''program'', ''meeting'', ''pulong''],
        [''donate'', ''donation'', ''contribute'', ''bigay'', ''abuloy''],
        [''volunteer'', ''volunteering'', ''help others'', ''tumulong'', ''boluntaryo''],
        [''clearance'', ''certificate'', ''document'', ''permit'', ''cedula''],
        [''complaint'', ''problem'', ''issue'', ''reklamo'', ''problema''],
        [''thank'', ''thanks'', ''salamat'', ''maraming salamat''],
        [''contact'', ''phone'', ''number'', ''tawag'', ''telepono'']]"
    using responses_patterns by (simp add: comp_def)
qed

text \<open>
  C7, at four queries. "Kamusta! I need food and a doctor" also matches the medical and
  the food entries, and gets the greeting. "Maraming SALAMAT po" matches no entry before
  the tenth, and gets its reply with confidence 0.95 and no actions. "I need FOOD and a
  Doctor" matches the medical entry before the food entry, and gets the medical reply.
  The empty query matches nothing and gets the default reply.
\<close>

theorem fallbackChatbotResponse_first_match_wins_witness:
  "fallbackChatbotResponse ''2026-01-01T00:00:00.000Z'' ''Kamusta! I need food and a doctor''
     = \<lparr>response = ''Hello! How can I help you with BarangayLink today?'',
        confidence = 9 / 10,
        sources = [''BarangayLink FAQ Database''],
        suggested_actions = [''Submit Request'', ''Browse Events'', ''Make Donation''],
        timestamp = ''2026-01-01T00:00:00.000Z''\<rparr>
   \<and> fallbackChatbotResponse ''2026-01-01T00:00:00.000Z'' ''Maraming SALAMAT po''
     = \<lparr>response = ''You'' @ [CHR 0x27] @ ''re welcome! Is there anything else I can help you with?'',
        confidence = 95 / 100,
        sources = [''BarangayLink FAQ Database''],
        suggested_actions = [],
        timestamp = ''2026-01-01T00:00:00.000Z''\<rparr>
   \<and> fallbackChatbotResponse ''2026-01-01T00:00:00.000Z'' ''I need FOOD and a Doctor''
     = \<lparr>response = ''For medical emergencies, please call 911 immediately. For non-emergencies, you can submit a medical request through our system.'',
        confidence = 85 / 100,
        sources = [''BarangayLink FAQ Database''],
        suggested_actions = [''Submit Medical Request'', ''Find Health Center'', ''Emergency Contacts''],
        timestamp = ''2026-01-01T00:00:00.000Z''\<rparr>
   \<and> fallbackChatbotResponse ''2026-01-01T00:00:00.000Z'' []
     = \<lparr>response = ''I'' @ [CHR 0x27] @ ''m not sure about that. Please contact the barangay office directly for specific inquiries or check our FAQ section.'',
        confidence = 3 / 10,
        sources = [],
        suggested_actions = [''Contact Support'', ''Browse FAQ'', ''Submit General Inquiry''],
        timestamp = ''2026-01-01T00:00:00.000Z''\<rparr>"
proof -
  let ?now = "''2026-01-01T00:00:00.000Z''"
  let ?q1 = "''Kamusta! I need food and a doctor''"
  let ?q2 = "''Maraming SALAMAT po''"
  let ?q3 = "''I need FOOD and a Doctor''"
  let ?q4 = "[] :: string"
  note first_match = fallbackChatbotResponse_first_match_wins
  have len: "length responses = 11"
    by (simp add: responses_def)
  have k: "sublist ''kamusta'' (toLowerCase ?q1)"
    unfolding str_includes_sublist [symmetric] by code_simp
  have here2: "pattern_matches (toLowerCase ?q2) (fst (responses ! 9))"
    and before2: "\<forall>j\<in>set [0..<9]. \<not> pattern_matches (toLowerCase ?q2) (fst (responses ! j))"
    and entry2: "snd (responses ! 9) =
      \<lparr>cfg_response = ''You'' @ [CHR 0x27] @ ''re welcome! Is there anything else I can help you with?'',
       cfg_confidence = 95 / 100, cfg_actions = []\<rparr>"
    by code_simp+
  have here3: "pattern_matches (toLowerCase ?q3) (fst (responses ! 2))"
    and before3: "\<forall>j\<in>set [0..<2]. \<not> pattern_matches (toLowerCase ?q3) (fst (responses ! j))"
    and entry3: "snd (responses ! 2) =
      \<lparr>cfg_response = ''For medical emergencies, please call 911 immediately. For non-emergencies, you can submit a medical request through our system.'',
       cfg_confidence = 85 / 100,
       cfg_actions = [''Submit Medical Request'', ''Find Health Center'', ''Emergency Contacts'']\<rparr>"
    by code_simp+
  have none4: "\<forall>j\<in>set [0..<11]. \<not> pattern_matches (toLowerCase ?q4) (fst (responses ! j))"
    by code_simp
  have r1: "fallbackChatbotResponse ?now ?q1
     = \<lparr>response = ''Hello! How can I help you with BarangayLink today?'',
        confidence = 9 / 10,
        sources = [''BarangayLink FAQ Database''],
        suggested_actions = [''Submit Request'', ''Browse Events'', ''Make Donation''],
        timestamp = ?now\<rparr>"
    using first_match [of ?q1 ?now, THEN conjunct2, THEN conjunct2, THEN conjunct1] k
    by simp
  have "(\<exists>p\<in>set (split_bar (fst (responses ! 9))). sublist p (toLowerCase ?q2))
      \<and> (\<forall>j<9. \<forall>p\<in>set (split_bar (fst (responses ! j))). \<not> sublist p (toLowerCase ?q2))"
    using here2 before2 by (simp add: pattern_matches_iff)
  then have r2: "fallbackChatbotResponse ?now ?q2
     = \<lparr>response = ''You'' @ [CHR 0x27] @ ''re welcome! Is there anything else I can help you with?'',
        confidence = 95 / 100,
        sources = [''BarangayLink FAQ Database''],
        suggested_actions = [],
        timestamp = ?now\<rparr>"
    using first_match [of ?q2 ?now, THEN conjunct1, rule_format, of 9] len
    by (simp add: entry2)
  have "(\<exists>p\<in>set (split_bar (fst (responses ! 2))). sublist p (toLowerCase ?q3))
      \<and> (\<forall>j<2. \<forall>p\<in>set (split_bar (fst (responses ! j))). \<not> sublist p (toLowerCase ?q3))"
    using here3 before3 by (simp add: pattern_matches_iff)
  then have r3: "fallbackChatbotResponse ?now ?q3
     = \<lparr>response = ''For medical emergencies, please call 911 immediately. For non-emergencies, you can submit a medical request through our system.'',
        confidence = 85 / 100,
        sources = [''BarangayLink FAQ Database''],
        suggested_actions = [''Submit Medical Request'', ''Find Health Center'', ''Emergency Contacts''],
        timestamp = ?now\<rparr>"
    using first_match [of ?q3 ?now, THEN conjunct1, rule_format, of 2] len
    by (simp add: entry3)
  have "\<forall>i<length responses.
      \<forall>p\<in>set (split_bar (fst (responses ! i))). \<not> sublist p (toLowerCase ?q4)"
    using none4 by (simp add: pattern_matches_iff len)
  then have r4: "fallbackChatbotResponse ?now ?q4
     = \<lparr>response = ''I'' @ [CHR 0x27] @ ''m not sure about that. Please contact the barangay office directly for specific inquiries or check our FAQ section.'',
        confidence = 3 / 10,
        sources = [],
        suggested_actions = [''Contact Support'', ''Browse FAQ'', ''Submit General Inquiry''],
        timestamp = ?now\<rparr>"
    using first_match [of ?q4 ?now, THEN conjunct2, THEN conjunct1] by simp
  show ?thesis
    using r1 r2 r3 r4 by blast
qed

section \<open>Properties of the fallback resource prediction\<close>

text \<open>
  For a disaster type that is not the name of a member of \<open>Object.prototype\<close>, the
  result carries the table of that type, or the default table when the type has none,
  with the status "success" and the note of a guideline-based fallback.
\<close>

lemma fallbackResourcePrediction_own_or_default:
  assumes "disasterType \<notin> set object_prototype_members"
  shows "fallbackResourcePrediction now disasterType p =
    \<lparr>status = ''success'', disaster_type = disasterType, affected_population = p,
     prediction = Table (case map_of (predictions p) disasterType of
                           Some table \<Rightarrow> table | None \<Rightarrow> defaultPrediction p),
     generated_at = now,
     fallback_note = ''Fallback prediction based on standard emergency response guidelines''\<rparr>"
  using assms by (simp add: fallbackResourcePrediction_def split: option.splits)

text \<open>
  FLOOD with a population of 100, and an unknown type with a population of 10.
\<close>

lemma fallbackResourcePrediction_flood_100:
  "prediction (fallbackResourcePrediction now ''FLOOD'' 100) =
     Table [(''water_liters'', 500), (''food_rations'', 300), (''blankets'', 100),
            (''first_aid_kits'', 2), (''emergency_kits'', 10), (''volunteers_needed'', 1),
            (''boats'', 1), (''life_jackets'', 50)]"
  by (simp add: fallbackResourcePrediction_def predictions_def)

lemma fallbackResourcePrediction_unknown_10:
  "prediction (fallbackResourcePrediction now ''UNKNOWN_TYPE'' 10) =
     Table [(''water_liters'', 30), (''food_rations'', 20), (''blankets'', 10),
            (''first_aid_kits'', 1), (''volunteers_needed'', 1), (''emergency_kits'', 1)]"
  by code_simp

text \<open>
  C6 at the disaster type "constructor", which has no table: \<open>predictions[disasterType]\<close>
  is the inherited \<open>Object.prototype.constructor\<close>, which is truthy, so the result
  carries that function and not the default table.
\<close>

theorem fallbackResourcePrediction_inherited_key:
  "prediction (fallbackResourcePrediction ''2026-01-01T00:00:00.000Z'' ''constructor'' 10) = Inherited ''constructor''
   \<and> prediction (fallbackResourcePrediction ''2026-01-01T00:00:00.000Z'' ''constructor'' 10)
       \<noteq> Table (defaultPrediction 10)
   \<and> map_of (predictions 10) ''constructor'' = None"
  by (simp add: fallbackResourcePrediction_def predictions_def object_prototype_members_def)

section \<open>Properties of the gateway\<close>

lemma rejected_is_caught:
  "try_catch (and_then (await (Rejected message)) f) handler = handler (Error message)"
  by (simp add: try_catch_def and_then_def await_def)

text \<open>What the gateway does with the body of a resolved call, by the kind of the body.\<close>

lemma prioritizeRequest_nullish:
  assumes "data = Null \<or> data = Undefined"
  shows "prioritizeRequest (Resolved data) rd
    = Inr (classification_obj (fallbackPrioritization rd))"
  using assms by (auto simp add: prioritizeRequest_def try_catch_def and_then_def await_def)

lemma prioritizeRequest_object:
  "prioritizeRequest (Resolved (Obj kvs)) rd =
     Inr (Obj [(''priority'', case map_of kvs ''priority'' of None \<Rightarrow> Undefined | Some v \<Rightarrow> v),
               (''score'', case map_of kvs ''score'' of None \<Rightarrow> Undefined | Some v \<Rightarrow> v),
               (''reason'', case map_of kvs ''reason'' of None \<Rightarrow> Undefined | Some v \<Rightarrow> v),
               (''suggestedCategory'',
                  case map_of kvs ''suggested_category'' of None \<Rightarrow> Undefined | Some v \<Rightarrow> v)])"
  by (simp add: prioritizeRequest_def try_catch_def and_then_def await_def)

lemma prioritizeRequest_other:
  assumes "data \<noteq> Null" and "data \<noteq> Undefined" and "\<forall>kvs. data \<noteq> Obj kvs"
  shows "prioritizeRequest (Resolved data) rd =
     Inr (Obj [(''priority'', Undefined), (''score'', Undefined), (''reason'', Undefined),
               (''suggestedCategory'', Undefined)])"
  using assms
  by (cases data) (simp_all add: prioritizeRequest_def try_catch_def and_then_def await_def)

lemma getChatbotResponse_nullish:
  assumes "data = Null \<or> data = Undefined"
  shows "getChatbotResponse (Resolved data) now (Str q)
    = Inr (chat_reply_obj (fallbackChatbotResponse now q))"
  using assms
  by (auto simp add: getChatbotResponse_def call_fallbackChatbotResponse_def string_method_def
      try_catch_def and_then_def await_def)

lemma getChatbotResponse_object:
  "getChatbotResponse (Resolved (Obj kvs)) now (Str q) =
     Inr (Obj [(''response'', case map_of kvs ''response'' of None \<Rightarrow> Undefined | Some v \<Rightarrow> v),
               (''confidence'', case map_of kvs ''confidence'' of None \<Rightarrow> Undefined | Some v \<Rightarrow> v),
               (''sources'', case map_of kvs ''sources'' of None \<Rightarrow> Undefined | Some v \<Rightarrow> v),
               (''suggested_actions'',
                  case map_of kvs ''suggested_actions'' of None \<Rightarrow> Undefined | Some v \<Rightarrow> v),
               (''timestamp'', case map_of kvs ''timestamp'' of None \<Rightarrow> Undefined | Some v \<Rightarrow> v)])"
  by (simp add: getChatbotResponse_def string_method_def try_catch_def and_then_def await_def)

lemma getChatbotResponse_other:
  assumes "data \<noteq> Null" and "data \<noteq> Undefined" and "\<forall>kvs. data \<noteq> Obj kvs"
  shows "getChatbotResponse (Resolved data) now (Str q) =
     Inr (Obj [(''response'', Undefined), (''confidence'', Undefined), (''sources'', Undefined),
               (''suggested_actions'', Undefined), (''timestamp'', Undefined)])"
  using assms
  by (cases data)
    (simp_all add: getChatbotResponse_def string_method_def try_catch_def and_then_def await_def)

lemma prioritizeRequest_returns: "\<exists>v. prioritizeRequest outcome rd = Inr v"
proof (cases outcome)
  case (Rejected message)
  then show ?thesis
    by (simp add: prioritizeRequest_def rejected_is_caught)
next
  case (Resolved data)
  consider "data = Null \<or> data = Undefined" | kvs where "data = Obj kvs"
    | "data \<noteq> Null" "data \<noteq> Undefined" "\<forall>kvs. data \<noteq> Obj kvs"
    by blast
  then show ?thesis
    using prioritizeRequest_nullish [of data rd] prioritizeRequest_object [of _ rd]
      prioritizeRequest_other [of data rd]
    unfolding Resolved by cases auto
qed

lemma getChatbotResponse_returns: "\<exists>v. getChatbotResponse outcome now (Str q) = Inr v"
proof (cases outcome)
  case (Rejected message)
  then show ?thesis
    by (simp add: getChatbotResponse_def call_fallbackChatbotResponse_def string_method_def
        try_catch_def and_then_def await_def)
next
  case (Resolved data)
  consider "data = Null \<or> data = Undefined" | kvs where "data = Obj kvs"
    | "data \<noteq> Null" "data \<noteq> Undefined" "\<forall>kvs. data \<noteq> Obj kvs"
    by blast
  then show ?thesis
    using getChatbotResponse_nullish [of data now q] getChatbotResponse_object [of _ now q]
      getChatbotResponse_other [of data now q]
    unfolding Resolved by cases auto
qed

lemma predictResourceNeeds_returns:
  "\<exists>v. predictResourceNeeds outcome now disasterType p = Inr v"
  by (cases outcome) (simp_all add: predictResourceNeeds_def try_catch_def await_def)

text \<open>
  A query that is not a string makes \<open>getChatbotResponse\<close> throw, whatever the service
  answers: \<open>query.substring\<close> throws inside the \<open>try\<close>, and \<open>query.toLowerCase\<close> throws
  again in the fallback that the \<open>catch\<close> block calls.
\<close>

lemma getChatbotResponse_non_string_query:
  assumes "\<forall>q. query \<noteq> Str q"
  shows "\<exists>error. getChatbotResponse outcome now query = Inl error"
  using assms
  by (cases outcome; cases query)
    (simp_all add: getChatbotResponse_def call_fallbackChatbotResponse_def string_method_def
      try_catch_def and_then_def await_def)

text \<open>
  C1 fails as stated in two places. A body that lacks every field of a classification is
  not a failure to \<open>prioritizeRequest\<close>: the result has the four fields undefined and
  is not the fallback's; and \<open>predictResourceNeeds\<close> returns whatever body arrived.
  And a query that is not a string makes \<open>getChatbotResponse\<close> throw, here after the
  service has answered.
\<close>

theorem gateway_malformed_response_counterexample:
  "prioritizeRequest (Resolved (Obj [(''error'', Str ''model not loaded'')]))
      \<lparr>title = ''Fire'', description = ''at the market'', category = ''OTHER''\<rparr>
     = Inr (Obj [(''priority'', Undefined), (''score'', Undefined), (''reason'', Undefined),
                 (''suggestedCategory'', Undefined)])
   \<and> prioritizeRequest (Resolved (Obj [(''error'', Str ''model not loaded'')]))
      \<lparr>title = ''Fire'', description = ''at the market'', category = ''OTHER''\<rparr>
     \<noteq> Inr (classification_obj (fallbackPrioritization
          \<lparr>title = ''Fire'', description = ''at the market'', category = ''OTHER''\<rparr>))
   \<and> predictResourceNeeds (Resolved (Str ''upstream error'')) ''2026-01-01T00:00:00.000Z''
        ''FLOOD'' 100
     = Inr (Str ''upstream error'')
   \<and> predictResourceNeeds (Resolved (Str ''upstream error'')) ''2026-01-01T00:00:00.000Z''
        ''FLOOD'' 100
     \<noteq> Inr (resource_prediction_obj
          (fallbackResourcePrediction ''2026-01-01T00:00:00.000Z'' ''FLOOD'' 100))
   \<and> getChatbotResponse
        (Resolved (Obj [(''response'', Str ''Hello''), (''confidence'', Num (9 / 10))]))
        ''2026-01-01T00:00:00.000Z'' (Num 5)
     = Inl (TypeError ''query.toLowerCase is not a function'')"
  by (simp add: prioritizeRequest_def predictResourceNeeds_def getChatbotResponse_def
      call_fallbackChatbotResponse_def string_method_def try_catch_def and_then_def
      await_def classification_obj_def resource_prediction_obj_def)

text \<open>
  C1, amended. For a request with string title, description and category, a string
  query, and any disaster type and population: when the call is rejected (no connection,
  the timeout, an error status), each operation returns the result of its fallback on
  the same inputs; so do \<open>prioritizeRequest\<close> and \<open>getChatbotResponse\<close> when the body
  is \<open>null\<close> or \<open>undefined\<close>, where reading a field throws inside the \<open>try\<close>. A body
  that is an object is not checked: each field of the result is the property of that
  name, \<open>undefined\<close> where the body has none (\<open>suggestedCategory\<close> is read from
  \<open>suggested_category\<close>); for a body that is neither an object nor \<open>null\<close> nor
  \<open>undefined\<close> every field is \<open>undefined\<close>. \<open>predictResourceNeeds\<close> returns the body
  of any resolved call as it is. Whatever the outcome of the call, each operation
  returns a value and raises nothing.
\<close>

theorem gateway_falls_back_on_rejection:
  "prioritizeRequest (Rejected message) rd
     = Inr (classification_obj (fallbackPrioritization rd))
   \<and> getChatbotResponse (Rejected message) now (Str q)
     = Inr (chat_reply_obj (fallbackChatbotResponse now q))
   \<and> predictResourceNeeds (Rejected message) now disasterType p
     = Inr (resource_prediction_obj (fallbackResourcePrediction now disasterType p))
   \<and> prioritizeRequest (Resolved Null) rd
     = Inr (classification_obj (fallbackPrioritization rd))
   \<and> prioritizeRequest (Resolved Undefined) rd
     = Inr (classification_obj (fallbackPrioritization rd))
   \<and> getChatbotResponse (Resolved Null) now (Str q)
     = Inr (chat_reply_obj (fallbackChatbotResponse now q))
   \<and> getChatbotResponse (Resolved Undefined) now (Str q)
     = Inr (chat_reply_obj (fallbackChatbotResponse now q))
   \<and> prioritizeRequest (Resolved (Obj kvs)) rd
     = Inr (Obj [(''priority'', case map_of kvs ''priority'' of None \<Rightarrow> Undefined | Some v \<Rightarrow> v),
                 (''score'', case map_of kvs ''score'' of None \<Rightarrow> Undefined | Some v \<Rightarrow> v),
                 (''reason'', case map_of kvs ''reason'' of None \<Rightarrow> Undefined | Some v \<Rightarrow> v),
                 (''suggestedCategory'',
                    case map_of kvs ''suggested_category'' of None \<Rightarrow> Undefined | Some v \<Rightarrow> v)])
   \<and> getChatbotResponse (Resolved (Obj kvs)) now (Str q)
     = Inr (Obj [(''response'', case map_of kvs ''response'' of None \<Rightarrow> Undefined | Some v \<Rightarrow> v),
                 (''confidence'', case map_of kvs ''confidence'' of None \<Rightarrow> Undefined | Some v \<Rightarrow> v),
                 (''sources'', case map_of kvs ''sources'' of None \<Rightarrow> Undefined | Some v \<Rightarrow> v),
                 (''suggested_actions'',
                    case map_of kvs ''suggested_actions'' of None \<Rightarrow> Undefined | Some v \<Rightarrow> v),
                 (''timestamp'', case map_of kvs ''timestamp'' of None \<Rightarrow> Undefined | Some v \<Rightarrow> v)])
   \<and> (data \<noteq> Null \<and> data \<noteq> Undefined \<and> (\<forall>fields. data \<noteq> Obj fields) \<longrightarrow>
        prioritizeRequest (Resolved data) rd
          = Inr (Obj [(''priority'', Undefined), (''score'', Undefined), (''reason'', Undefined),
                      (''suggestedCategory'', Undefined)])
        \<and> getChatbotResponse (Resolved data) now (Str q)
          = Inr (Obj [(''response'', Undefined), (''confidence'', Undefined),
                      (''sources'', Undefined), (''suggested_actions'', Undefined),
                      (''timestamp'', Undefined)]))
   \<and> predictResourceNeeds (Resolved data) now disasterType p = Inr data
   \<and> (\<exists>v. prioritizeRequest outcome rd = Inr v)
   \<and> (\<exists>v. getChatbotResponse outcome now (Str q) = Inr v)
   \<and> (\<exists>v. predictResourceNeeds outcome now disasterType p = Inr v)"
proof -
  have rejected: "prioritizeRequest (Rejected message) rd
     = Inr (classification_obj (fallbackPrioritization rd))"
    "getChatbotResponse (Rejected message) now (Str q)
     = Inr (chat_reply_obj (fallbackChatbotResponse now q))"
    "predictResourceNeeds (Rejected message) now disasterType p
     = Inr (resource_prediction_obj (fallbackResourcePrediction now disasterType p))"
    by (simp_all add: prioritizeRequest_def getChatbotResponse_def predictResourceNeeds_def
        call_fallbackChatbotResponse_def string_method_def try_catch_def and_then_def
        await_def)
  have passed: "predictResourceNeeds (Resolved data) now disasterType p = Inr data"
    by (simp add: predictResourceNeeds_def try_catch_def await_def)
  have other: "data \<noteq> Null \<and> data \<noteq> Undefined \<and> (\<forall>fields. data \<noteq> Obj fields) \<longrightarrow>
        prioritizeRequest (Resolved data) rd
          = Inr (Obj [(''priority'', Undefined), (''score'', Undefined), (''reason'', Undefined),
                      (''suggestedCategory'', Undefined)])
        \<and> getChatbotResponse (Resolved data) now (Str q)
          = Inr (Obj [(''response'', Undefined), (''confidence'', Undefined),
                      (''sources'', Undefined), (''suggested_actions'', Undefined),
                      (''timestamp'', Undefined)])"
    using prioritizeRequest_other [of data rd] getChatbotResponse_other [of data now q]
    by blast
  show ?thesis
    using rejected passed other
      prioritizeRequest_nullish [of Null rd] prioritizeRequest_nullish [of Undefined rd]
      getChatbotResponse_nullish [of Null now q] getChatbotResponse_nullish [of Undefined now q]
      prioritizeRequest_object [of kvs rd] getChatbotResponse_object [of kvs now q]
      prioritizeRequest_returns [of outcome rd] getChatbotResponse_returns [of outcome now q]
      predictResourceNeeds_returns [of outcome now disasterType p]
    by (intro conjI) simp_all
qed

text \<open>
  C1, amended, at four calls: a timeout while prioritizing "Fire" / "at the market" /
  OTHER; a timeout while answering "salamat"; a well-formed classification, whose
  \<open>suggested_category\<close> becomes \<open>suggestedCategory\<close>; and a body that is a string.
\<close>

theorem gateway_falls_back_on_rejection_witness:
  "prioritizeRequest (Rejected ''timeout of 5000ms exceeded'')
      \<lparr>title = ''Fire'', description = ''at the market'', category = ''OTHER''\<rparr>
     = Inr (Obj [(''priority'', Str ''URGENT''), (''score'', Num (92 / 100)),
                 (''reason'', Str ''Contains 1 emergency keyword(s)''),
                 (''suggestedCategory'', Str ''OTHER'')])
   \<and> getChatbotResponse (Rejected ''timeout of 5000ms exceeded'')
        ''2026-01-01T00:00:00.000Z'' (Str ''salamat'')
     = Inr (Obj [(''response'', Str (''You'' @ [CHR 0x27] @ ''re welcome! Is there anything else I can help you with?'')),
                 (''confidence'', Num (95 / 100)),
                 (''sources'', Arr [Str ''BarangayLink FAQ Database'']),
                 (''suggested_actions'', Arr []),
                 (''timestamp'', Str ''2026-01-01T00:00:00.000Z'')])
   \<and> prioritizeRequest
        (Resolved (Obj [(''priority'', Str ''HIGH''), (''score'', Num (8 / 10)),
                        (''reason'', Str ''medical need''),
                        (''suggested_category'', Str ''MEDICAL'')]))
        \<lparr>title = ''Fire'', description = ''at the market'', category = ''OTHER''\<rparr>
     = Inr (Obj [(''priority'', Str ''HIGH''), (''score'', Num (8 / 10)),
                 (''reason'', Str ''medical need''),
                 (''suggestedCategory'', Str ''MEDICAL'')])
   \<and> prioritizeRequest (Resolved (Str ''upstream error''))
        \<lparr>title = ''Fire'', description = ''at the market'', category = ''OTHER''\<rparr>
     = Inr (Obj [(''priority'', Undefined), (''score'', Undefined), (''reason'', Undefined),
                 (''suggestedCategory'', Undefined)])"
proof -
  let ?rd = "\<lparr>title = ''Fire'', description = ''at the market'', category = ''OTHER''\<rparr>"
  let ?now = "''2026-01-01T00:00:00.000Z''"
  let ?kvs = "[(''priority'', Str ''HIGH''), (''score'', Num (8 / 10)),
    (''reason'', Str ''medical need''), (''suggested_category'', Str ''MEDICAL'')]"
  have c: "classification_obj (fallbackPrioritization ?rd)
     = Obj [(''priority'', Str ''URGENT''), (''score'', Num (92 / 100)),
            (''reason'', Str ''Contains 1 emergency keyword(s)''),
            (''suggestedCategory'', Str ''OTHER'')]"
    by code_simp
  have r: "chat_reply_obj (fallbackChatbotResponse ?now ''salamat'')
     = Obj [(''response'', Str (''You'' @ [CHR 0x27] @ ''re welcome! Is there anything else I can help you with?'')),
            (''confidence'', Num (95 / 100)),
            (''sources'', Arr [Str ''BarangayLink FAQ Database'']),
            (''suggested_actions'', Arr []),
            (''timestamp'', Str ?now)]"
    by code_simp
  show ?thesis
    using gateway_falls_back_on_rejection
      [of "''timeout of 5000ms exceeded''" ?rd ?now "''salamat''" _ _ ?kvs "Str ''upstream error''"]
    by (simp add: c r)
qed

section \<open>Properties of the rooms\<close>

lemma rooms_join: "rooms (join io s room) r = (if r = room then insert s (rooms io r) else rooms io r)"
  by (simp add: join_def)

lemma sockets_join: "sockets (join io s room) = sockets io"
  by (simp add: join_def)

lemma rooms_on_connection:
  "rooms (on_connection io s u) r =
     (if r = ''user-'' @ user_id u \<or> r = toLowerCase (user_role u)
         \<or> (r = ''admins'' \<and> (user_role u = ''ADMIN'' \<or> user_role u = ''MODERATOR''))
      then insert s (rooms io r) else rooms io r)"
  unfolding on_connection_def Let_def
  by (cases "user_role u = ''ADMIN'' \<or> user_role u = ''MODERATOR''")
     (simp_all only: rooms_join if_True if_False, auto simp add: join_def)

lemma sockets_on_connection: "sockets (on_connection io s u) = (sockets io)(s \<mapsto> u)"
  by (simp add: on_connection_def Let_def sockets_join)






















section \<open>Properties of the fanout\<close>

text \<open>
  C9. A typing event of a connected socket \<open>s\<close> is delivered as \<open>user-typing\<close>, with
  the user id of \<open>s\<close> and the flag, to exactly the members of \<open>chat-<chatId>\<close> other
  than \<open>s\<close>: to each of them, and never to \<open>s\<close>.
\<close>

theorem typing_reaches_the_others:
  assumes "sockets io s = Some u"
  shows "snd (handle io (Typing s chatId isTyping)) =
      (\<lambda>s'. \<lparr>recipient = s', event_name = ''user-typing'',
             payload = Obj [(''userId'', Str (user_id u)), (''isTyping'', Bool isTyping)]\<rparr>)
        ` (membersOf io (''chat-'' @ chatId) - {s})
    \<and> (\<forall>s' \<in> membersOf io (''chat-'' @ chatId). s' \<noteq> s \<longrightarrow>
          \<lparr>recipient = s', event_name = ''user-typing'',
           payload = Obj [(''userId'', Str (user_id u)), (''isTyping'', Bool isTyping)]\<rparr>
          \<in> snd (handle io (Typing s chatId isTyping)))
    \<and> (\<forall>d \<in> snd (handle io (Typing s chatId isTyping)). recipient d \<noteq> s)"
  using assms by (auto simp: socket_to_emit_def membersOf_def)

text \<open>
  C9, with two sockets in chat 42: the typing of \<open>s1\<close> reaches \<open>s2\<close> alone.
\<close>

theorem typing_reaches_the_others_witness:
  "snd (handle
      (run no_server
        [Connection ''s1'' \<lparr>user_id = ''u1'', user_email = ''u1@example.org'', user_role = ''MEMBER''\<rparr>,
         Connection ''s2'' \<lparr>user_id = ''u2'', user_email = ''u2@example.org'', user_role = ''MEMBER''\<rparr>,
         JoinChat ''s1'' ''42'', JoinChat ''s2'' ''42''])
      (Typing ''s1'' ''42'' True))
   = {\<lparr>recipient = ''s2'', event_name = ''user-typing'',
       payload = Obj [(''userId'', Str ''u1''), (''isTyping'', Bool True)]\<rparr>}"
proof -
  let ?u1 = "\<lparr>user_id = ''u1'', user_email = ''u1@example.org'', user_role = ''MEMBER''\<rparr>"
  let ?u2 = "\<lparr>user_id = ''u2'', user_email = ''u2@example.org'', user_role = ''MEMBER''\<rparr>"
  define io where "io = run no_server [Connection ''s1'' ?u1, Connection ''s2'' ?u2,
    JoinChat ''s1'' ''42'', JoinChat ''s2'' ''42'']"
  have l: "toLowerCase ''MEMBER'' = ''member''"
    by code_simp
  have s: "sockets io ''s1'' = Some ?u1"
    by (simp add: io_def no_server_def sockets_on_connection sockets_join)
  have m: "membersOf io ''chat-42'' = {''s1'', ''s2''}"
    by (auto simp add: io_def membersOf_def no_server_def sockets_on_connection sockets_join
        rooms_on_connection rooms_join l)
  have "snd (handle io (Typing ''s1'' ''42'' True))
      = {\<lparr>recipient = ''s2'', event_name = ''user-typing'',
          payload = Obj [(''userId'', Str ''u1''), (''isTyping'', Bool True)]\<rparr>}"
    using typing_reaches_the_others [OF s, of "''42''" True] by (simp add: m)
  then show ?thesis
    unfolding io_def .
qed

text \<open>
  C10. \<open>emitNotification\<close>, \<open>broadcastToAdmins\<close> and \<open>updateRequestStatus\<close> return
  normally on every input. Before \<open>init\<close>, the error of \<open>getIO\<close> ("Socket.io not
  initialized") is caught and logged and nothing is delivered; with a server whose
  target room has no member, nothing is delivered and the call completes.
\<close>

theorem fanout_helpers_never_raise:
  "(\<exists>r. emitNotification io userId notification = Inr r)
   \<and> (\<exists>r. broadcastToAdmins io ev data = Inr r)
   \<and> (\<exists>r. updateRequestStatus io now requestId st = Inr r)
   \<and> emitNotification None userId notification
       = Inr ({}, [LogError ''Error emitting notification:''
                    (Error ''Socket.io not initialized'')])
   \<and> broadcastToAdmins None ev data
       = Inr ({}, [LogError ''Error broadcasting to admins:''
                    (Error ''Socket.io not initialized'')])
   \<and> updateRequestStatus None now requestId st
       = Inr ({}, [LogError ''Error updating request status:''
                    (Error ''Socket.io not initialized'')])
   \<and> (membersOf server (''user-'' @ userId) = {} \<longrightarrow>
        emitNotification (Some server) userId notification
          = Inr ({}, [LogDebug (''Notification emitted to user '' @ userId)]))
   \<and> (membersOf server ''admins'' = {} \<longrightarrow>
        broadcastToAdmins (Some server) ev data
          = Inr ({}, [LogDebug (''Broadcast to admins: '' @ ev)]))
   \<and> (membersOf server (''request-'' @ requestId) = {} \<longrightarrow>
        updateRequestStatus (Some server) now requestId st
          = Inr ({}, [LogDebug (''Request status updated: '' @ requestId @ '' -> '' @ st)]))"
proof -
  have "\<exists>r. emitNotification io userId notification = Inr r"
    "\<exists>r. broadcastToAdmins io ev data = Inr r"
    "\<exists>r. updateRequestStatus io now requestId st = Inr r"
    by (cases io; simp add: emitNotification_def broadcastToAdmins_def updateRequestStatus_def
        try_catch_def and_then_def getIO_def)+
  moreover have "emitNotification None userId notification
       = Inr ({}, [LogError ''Error emitting notification:''
                    (Error ''Socket.io not initialized'')])"
    "broadcastToAdmins None ev data
       = Inr ({}, [LogError ''Error broadcasting to admins:''
                    (Error ''Socket.io not initialized'')])"
    "updateRequestStatus None now requestId st
       = Inr ({}, [LogError ''Error updating request status:''
                    (Error ''Socket.io not initialized'')])"
    by (simp_all add: emitNotification_def broadcastToAdmins_def updateRequestStatus_def
        try_catch_def and_then_def getIO_def)
  moreover have "membersOf server (''user-'' @ userId) = {} \<longrightarrow>
        emitNotification (Some server) userId notification
          = Inr ({}, [LogDebug (''Notification emitted to user '' @ userId)])"
    "membersOf server ''admins'' = {} \<longrightarrow>
        broadcastToAdmins (Some server) ev data
          = Inr ({}, [LogDebug (''Broadcast to admins: '' @ ev)])"
    "membersOf server (''request-'' @ requestId) = {} \<longrightarrow>
        updateRequestStatus (Some server) now requestId st
          = Inr ({}, [LogDebug (''Request status updated: '' @ requestId @ '' -> '' @ st)])"
    by (simp_all add: emitNotification_def broadcastToAdmins_def updateRequestStatus_def
        try_catch_def and_then_def getIO_def io_to_emit_def membersOf_def)
  ultimately show ?thesis
    by blast
qed

text \<open>
  C10, at a status update for a request nobody watches, and at a notification before
  \<open>init\<close>.
\<close>

theorem fanout_helpers_never_raise_witness:
  "membersOf no_server (''request-'' @ ''unknown-id'') = {}
   \<and> updateRequestStatus (Some no_server) ''2026-01-01T00:00:00.000Z'' ''unknown-id'' ''RESOLVED''
       = Inr ({}, [LogDebug ''Request status updated: unknown-id -> RESOLVED''])
   \<and> emitNotification None ''u1'' (Str ''hello'')
       = Inr ({}, [LogError ''Error emitting notification:''
                    (Error ''Socket.io not initialized'')])"
proof -
  have e: "membersOf no_server (''request-'' @ ''unknown-id'') = {}"
    by (simp add: membersOf_def no_server_def)
  show ?thesis
    using fanout_helpers_never_raise [of None "''u1''" "Str ''hello''" _ _
        "''2026-01-01T00:00:00.000Z''" "''unknown-id''" "''RESOLVED''" no_server] e
    by simp
qed

end
